theory Spec2Isabelle
  imports Main "HOL-Library.Sublist"
begin

section \<open>Values, errors and the call log\<close>

text \<open>
  Object ids are compared in the source through their hexadecimal strings
  (\<^verbatim>\<open>commit.id().toString()\<close>), so an object id is its string.
\<close>

type_synonym oid = string

datatype jsval = JUndefined | JStr string | JOid oid

datatype error = Error string

record reference =
  ref_name :: string
  ref_target :: oid

record commit =
  cid :: oid
  parents :: "oid list"
  cmessage :: jsval
  csignature :: jsval

text \<open>
  Modelled from the spec: the object \<^verbatim>\<open>Config.getConfig\<close> resolves to (the Config
  module is not among the sources). It is a flat mapping of string keys to string values
  that holds the five required keys; the fields are the keys, with \<^verbatim>\<open>.\<close> written \<^verbatim>\<open>_\<close>.
\<close>

record config =
  gitflow_branch_master :: string
  gitflow_branch_develop :: string
  gitflow_prefix_hotfix :: string
  gitflow_prefix_release :: string
  gitflow_prefix_versiontag :: string

text \<open>
  Every call that a workflow function makes on one of its collaborators, or on a hook, is
  logged with what it was called on and how it settled.
\<close>

datatype call =
    GetConfig
  | BranchLookup string
  | GetCommit oid
  | CommitLookup string
  | CreateBranch string commit
  | Head
  | CheckoutBranch reference
  | PostCheckoutHook string string
  | BeforeMergeCallback string string
  | Merge reference reference
  | PostDevelopMergeCallback jsval
  | PostMasterMergeCallback jsval
  | TagCreate jsval string jsval
  | SafelyDeleteBranch string string

datatype outcome =
    Threw error
  | GotConfig config
  | GotRef reference
  | GotCommit commit
  | GotVal jsval
  | Done

type_synonym event = "call \<times> outcome"

section \<open>Promises\<close>

text \<open>
  An operation of a collaborator runs on the state \<open>'r\<close> of the world (the repository on
  disk and whatever else the hooks can reach) and either rejects or resolves. A promise of
  the workflow code also yields the calls it made, in order. The state is kept when a
  promise rejects: nothing is rolled back.
\<close>

type_synonym ('r, 'a) operation = "'r \<Rightarrow> (error + 'a) \<times> 'r"

type_synonym ('r, 'a) promise = "'r \<Rightarrow> (error + 'a) \<times> 'r \<times> event list"

type_synonym 'r hook = "jsval list \<Rightarrow> ('r, jsval) operation"

definition resolve :: "'a \<Rightarrow> ('r, 'a) promise" where
  "resolve x r = (Inr x, r, [])"

definition reject :: "error \<Rightarrow> ('r, 'a) promise" where
  "reject e r = (Inl e, r, [])"

text \<open>\<^verbatim>\<open>p.then(f)\<close>: \<open>f\<close> runs only when \<open>p\<close> resolves; a rejection passes through.\<close>

definition andThen :: "('r, 'a) promise \<Rightarrow> ('a \<Rightarrow> ('r, 'b) promise) \<Rightarrow> ('r, 'b) promise" where
  "andThen p f r =
     (case p r of
        (Inl e, r1, t1) \<Rightarrow> (Inl e, r1, t1)
      | (Inr x, r1, t1) \<Rightarrow> (case f x r1 of (res, r2, t2) \<Rightarrow> (res, r2, t1 @ t2)))"

text \<open>A call on a collaborator or a hook, awaited and logged.\<close>

definition invoke :: "call \<Rightarrow> ('a \<Rightarrow> outcome) \<Rightarrow> ('r, 'a) operation \<Rightarrow> ('r, 'a) promise" where
  "invoke c shown f r =
     (case f r of
        (Inl e, r1) \<Rightarrow> (Inl e, r1, [(c, Threw e)])
      | (Inr x, r1) \<Rightarrow> (Inr x, r1, [(c, shown x)]))"

text \<open>
  \<^verbatim>\<open>Promise.all\<close> over an array built by \<^verbatim>\<open>map\<close>: every call of the array is started, in
  array order, whether or not an earlier one rejects. The model reports the rejection of
  the earliest array position (the engine reports the one that settles first).
\<close>

fun Promise_all :: "('r, 'a) promise list \<Rightarrow> ('r, 'a list) promise" where
  "Promise_all [] r = (Inr [], r, [])"
| "Promise_all (p # ps) r =
     (case p r of (x, r1, t1) \<Rightarrow>
        (case Promise_all ps r1 of (xs, r2, t2) \<Rightarrow>
           ((case x of
               Inl e \<Rightarrow> Inl e
             | Inr v \<Rightarrow> (case xs of Inl e \<Rightarrow> Inl e | Inr vs \<Rightarrow> Inr (v # vs))),
            r2, t1 @ t2)))"

declare Promise_all.simps [simp del]

section \<open>Options and collaborators\<close>

text \<open>
  The options object. A hook that is left out is \<open>None\<close>; \<open>keepBranch\<close> and \<open>onlyMaster\<close>
  are read for their truthiness, \<open>message\<close> is passed on as it is, and \<open>sha\<close> is a string
  or absent.
\<close>

record 'r options =
  keepBranch :: bool
  message :: jsval
  processMergeMessageCallback :: "'r hook option"
  beforeMergeCallback :: "'r hook option"
  postDevelopMergeCallback :: "'r hook option"
  postMasterMergeCallback :: "'r hook option"
  postCheckoutHook :: "'r hook option"
  signingCallback :: "'r hook option"
  onlyMaster :: bool
  sha :: "string option"

text \<open>The default \<^verbatim>\<open>() => {}\<close> of a destructured hook.\<close>

definition noop :: "'r hook" where
  "noop args r = (Inr JUndefined, r)"

definition orNoop :: "'r hook option \<Rightarrow> 'r hook" where
  "orNoop h = (case h of None \<Rightarrow> noop | Some f \<Rightarrow> f)"

text \<open>\<^verbatim>\<open>!s\<close> on a string that may be absent: absent and empty are falsy.\<close>

definition truthy :: "string option \<Rightarrow> string option" where
  "truthy s = (case s of None \<Rightarrow> None | Some v \<Rightarrow> if v = [] then None else Some v)"

text \<open>
  Both modules are functions of their collaborators,
  \<^verbatim>\<open>module.exports = (NodeGit, { constants, utils }, { Config }) => ...\<close>, none of which is
  among the sources; the repository handle brings its own methods. They are parameters of
  the model: a field for each member that the two modules use.
\<close>

record ('r, 'h) deps =
  REPO_REQUIRED :: string
  Config_getConfig :: "'h \<Rightarrow> ('r, config) operation"
  Branch_lookup :: "'h \<Rightarrow> string \<Rightarrow> ('r, reference) operation"
  Commit_lookup :: "'h \<Rightarrow> string \<Rightarrow> ('r, commit) operation"
  repo_getCommit :: "'h \<Rightarrow> oid \<Rightarrow> ('r, commit) operation"
  repo_createBranch :: "'h \<Rightarrow> string \<Rightarrow> commit \<Rightarrow> ('r, reference) operation"
  repo_head :: "'h \<Rightarrow> ('r, reference) operation"
  repo_checkoutBranch :: "'h \<Rightarrow> reference \<Rightarrow> ('r, unit) operation"
  Repo_merge :: "reference \<Rightarrow> reference \<Rightarrow> 'h \<Rightarrow> 'r hook option \<Rightarrow> 'r hook option
                   \<Rightarrow> ('r, jsval) operation"
  InjectIntermediateCallback :: "'r hook \<Rightarrow> jsval \<Rightarrow> ('r, jsval) operation"
  Tag_create :: "jsval \<Rightarrow> string \<Rightarrow> jsval \<Rightarrow> 'h \<Rightarrow> ('r, jsval) operation"
  Repo_safelyDeleteBranch :: "'h \<Rightarrow> string \<Rightarrow> string \<Rightarrow> 'r hook \<Rightarrow> ('r, unit) operation"

section \<open>Release.js\<close>

definition startRelease ::
  "('r, 'h) deps \<Rightarrow> 'h option \<Rightarrow> string option \<Rightarrow> 'r options \<Rightarrow> ('r, reference) promise" where
  "startRelease D repo releaseVersion opts =
     (case repo of
        None \<Rightarrow> reject (Error (REPO_REQUIRED D))
      | Some rp \<Rightarrow>
     (case truthy releaseVersion of
        None \<Rightarrow> reject (Error ''Release version is required'')
      | Some version \<Rightarrow>
     andThen (invoke GetConfig GotConfig (Config_getConfig D rp)) (\<lambda>config.
     let releasePrefix = gitflow_prefix_release config;
         developBranchName = gitflow_branch_develop config;
         releaseBranchName = releasePrefix @ version
     in
     andThen
       (case truthy (sha opts) of
          Some s \<Rightarrow> invoke (CommitLookup s) GotCommit (Commit_lookup D rp s)
        | None \<Rightarrow>
            andThen (invoke (BranchLookup developBranchName) GotRef
                       (Branch_lookup D rp developBranchName)) (\<lambda>developBranch.
            invoke (CommitLookup (ref_target developBranch)) GotCommit
              (Commit_lookup D rp (ref_target developBranch))))
       (\<lambda>startingCommit.
     andThen (invoke (CreateBranch releaseBranchName startingCommit) GotRef
                (repo_createBranch D rp releaseBranchName startingCommit)) (\<lambda>releaseBranch.
     andThen (invoke Head GotRef (repo_head D rp)) (\<lambda>headRef.
     andThen (invoke (CheckoutBranch releaseBranch) (\<lambda>_. Done)
                (repo_checkoutBranch D rp releaseBranch)) (\<lambda>_.
     andThen (invoke Head GotRef (repo_head D rp)) (\<lambda>newHeadRef.
     andThen (invoke (PostCheckoutHook (ref_target headRef) (ref_target newHeadRef)) GotVal
                (orNoop (postCheckoutHook opts)
                   [JStr (ref_target headRef), JStr (ref_target newHeadRef)])) (\<lambda>_.
     resolve releaseBranch)))))))))"

definition finishRelease ::
  "('r, 'h) deps \<Rightarrow> 'h option \<Rightarrow> string option \<Rightarrow> 'r options \<Rightarrow> ('r, jsval) promise" where
  "finishRelease D repo releaseVersion opts =
     (case repo of
        None \<Rightarrow> reject (Error ''Repo is required'')
      | Some rp \<Rightarrow>
     (case truthy releaseVersion of
        None \<Rightarrow> reject (Error ''Release name is required'')
      | Some version \<Rightarrow>
     andThen (invoke GetConfig GotConfig (Config_getConfig D rp)) (\<lambda>config.
     let developBranchName = gitflow_branch_develop config;
         releaseBranchName = gitflow_prefix_release config @ version;
         masterBranchName = gitflow_branch_master config;
         versionPrefix = gitflow_prefix_versiontag config
     in
     andThen
       (Promise_all
          (map (\<lambda>branchName. invoke (BranchLookup branchName) GotRef
                                (Branch_lookup D rp branchName))
             [developBranchName, releaseBranchName, masterBranchName])) (\<lambda>branches.
     let developBranch = branches ! 0;
         releaseBranch = branches ! 1;
         masterBranch = branches ! 2
     in
     andThen
       (Promise_all
          (map (\<lambda>branch. invoke (GetCommit (ref_target branch)) GotCommit
                            (repo_getCommit D rp (ref_target branch)))
             branches)) (\<lambda>commits.
     let developCommit = commits ! 0;
         releaseCommit = commits ! 1;
         masterCommit = commits ! 2;
         cancelDevelopMerge = (onlyMaster opts \<or> cid developCommit = cid releaseCommit);
         cancelMasterMerge = (cid masterCommit = cid releaseCommit)
     in
     andThen
       (if \<not> cancelDevelopMerge then
          andThen (invoke (BeforeMergeCallback developBranchName releaseBranchName) GotVal
                     (orNoop (beforeMergeCallback opts)
                        [JStr developBranchName, JStr releaseBranchName])) (\<lambda>_.
          andThen (invoke (Merge developBranch releaseBranch) GotVal
                     (Repo_merge D developBranch releaseBranch rp
                        (processMergeMessageCallback opts) (signingCallback opts))) (\<lambda>merged.
          invoke (PostDevelopMergeCallback merged) GotVal
            (InjectIntermediateCallback D (orNoop (postDevelopMergeCallback opts)) merged)))
        else resolve JUndefined) (\<lambda>mergeCommit.
     let tagName = versionPrefix @ version in
     andThen
       (if \<not> cancelMasterMerge then
          andThen (invoke (BeforeMergeCallback masterBranchName releaseBranchName) GotVal
                     (orNoop (beforeMergeCallback opts)
                        [JStr masterBranchName, JStr releaseBranchName])) (\<lambda>_.
          andThen (invoke (Merge masterBranch releaseBranch) GotVal
                     (Repo_merge D masterBranch releaseBranch rp
                        (processMergeMessageCallback opts) (signingCallback opts))) (\<lambda>merged.
          andThen (invoke (PostMasterMergeCallback merged) GotVal
                     (InjectIntermediateCallback D (orNoop (postMasterMergeCallback opts))
                        merged)) (\<lambda>oid.
          invoke (TagCreate oid tagName (message opts)) GotVal
            (Tag_create D oid tagName (message opts) rp))))
        else
          invoke (TagCreate (JOid (cid masterCommit)) tagName (message opts)) GotVal
            (Tag_create D (JOid (cid masterCommit)) tagName (message opts) rp)) (\<lambda>_.
     andThen
       (if keepBranch opts then resolve ()
        else
          invoke (SafelyDeleteBranch releaseBranchName masterBranchName) (\<lambda>_. Done)
            (Repo_safelyDeleteBranch D rp releaseBranchName masterBranchName
               (orNoop (postCheckoutHook opts)))) (\<lambda>_.
     resolve mergeCommit))))))))"

section \<open>Hotfix.js\<close>

text \<open>\<^verbatim>\<open>startHotfix\<close> destructures \<^verbatim>\<open>postCheckoutHook\<close> alone: it never reads \<^verbatim>\<open>sha\<close>.\<close>

definition startHotfix ::
  "('r, 'h) deps \<Rightarrow> 'h option \<Rightarrow> string option \<Rightarrow> 'r options \<Rightarrow> ('r, reference) promise" where
  "startHotfix D repo hotfixVersion opts =
     (case repo of
        None \<Rightarrow> reject (Error (REPO_REQUIRED D))
      | Some rp \<Rightarrow>
     (case truthy hotfixVersion of
        None \<Rightarrow> reject (Error ''Hotfix version is required'')
      | Some version \<Rightarrow>
     andThen (invoke GetConfig GotConfig (Config_getConfig D rp)) (\<lambda>config.
     let hotfixPrefix = gitflow_prefix_hotfix config;
         masterBranchName = gitflow_branch_master config;
         hotfixBranchName = hotfixPrefix @ version
     in
     andThen (invoke (BranchLookup masterBranchName) GotRef
                (Branch_lookup D rp masterBranchName)) (\<lambda>masterBranch.
     andThen (invoke (CommitLookup (ref_target masterBranch)) GotCommit
                (Commit_lookup D rp (ref_target masterBranch))) (\<lambda>localMasterCommit.
     andThen (invoke (CreateBranch hotfixBranchName localMasterCommit) GotRef
                (repo_createBranch D rp hotfixBranchName localMasterCommit)) (\<lambda>hotfixBranch.
     andThen (invoke Head GotRef (repo_head D rp)) (\<lambda>headRef.
     andThen (invoke (CheckoutBranch hotfixBranch) (\<lambda>_. Done)
                (repo_checkoutBranch D rp hotfixBranch)) (\<lambda>_.
     andThen (invoke Head GotRef (repo_head D rp)) (\<lambda>newHeadRef.
     andThen (invoke (PostCheckoutHook (ref_target headRef) (ref_target newHeadRef)) GotVal
                (orNoop (postCheckoutHook opts)
                   [JStr (ref_target headRef), JStr (ref_target newHeadRef)])) (\<lambda>_.
     resolve hotfixBranch))))))))))"

definition finishHotfix ::
  "('r, 'h) deps \<Rightarrow> 'h option \<Rightarrow> string option \<Rightarrow> 'r options \<Rightarrow> ('r, jsval) promise" where
  "finishHotfix D repo hotfixVersion opts =
     (case repo of
        None \<Rightarrow> reject (Error ''Repo is required'')
      | Some rp \<Rightarrow>
     (case truthy hotfixVersion of
        None \<Rightarrow> reject (Error ''Hotfix name is required'')
      | Some version \<Rightarrow>
     andThen (invoke GetConfig GotConfig (Config_getConfig D rp)) (\<lambda>config.
     let developBranchName = gitflow_branch_develop config;
         hotfixBranchName = gitflow_prefix_hotfix config @ version;
         masterBranchName = gitflow_branch_master config;
         versionPrefix = gitflow_prefix_versiontag config
     in
     andThen
       (Promise_all
          (map (\<lambda>branchName. invoke (BranchLookup branchName) GotRef
                                (Branch_lookup D rp branchName))
             [developBranchName, hotfixBranchName, masterBranchName])) (\<lambda>branches.
     let developBranch = branches ! 0;
         hotfixBranch = branches ! 1;
         masterBranch = branches ! 2
     in
     andThen
       (Promise_all
          (map (\<lambda>branch. invoke (GetCommit (ref_target branch)) GotCommit
                            (repo_getCommit D rp (ref_target branch)))
             branches)) (\<lambda>commits.
     let developCommit = commits ! 0;
         hotfixCommit = commits ! 1;
         masterCommit = commits ! 2;
         cancelDevelopMerge = (onlyMaster opts \<or> cid developCommit = cid hotfixCommit);
         cancelMasterMerge = (cid masterCommit = cid hotfixCommit)
     in
     andThen
       (if \<not> cancelDevelopMerge then
          andThen (invoke (BeforeMergeCallback developBranchName hotfixBranchName) GotVal
                     (orNoop (beforeMergeCallback opts)
                        [JStr developBranchName, JStr hotfixBranchName])) (\<lambda>_.
          andThen (invoke (Merge developBranch hotfixBranch) GotVal
                     (Repo_merge D developBranch hotfixBranch rp
                        (processMergeMessageCallback opts) (signingCallback opts))) (\<lambda>merged.
          invoke (PostDevelopMergeCallback merged) GotVal
            (InjectIntermediateCallback D (orNoop (postDevelopMergeCallback opts)) merged)))
        else resolve JUndefined) (\<lambda>mergeCommit.
     let tagName = versionPrefix @ version in
     andThen
       (if \<not> cancelMasterMerge then
          andThen (invoke (BeforeMergeCallback masterBranchName hotfixBranchName) GotVal
                     (orNoop (beforeMergeCallback opts)
                        [JStr masterBranchName, JStr hotfixBranchName])) (\<lambda>_.
          andThen (invoke (Merge masterBranch hotfixBranch) GotVal
                     (Repo_merge D masterBranch hotfixBranch rp
                        (processMergeMessageCallback opts) (signingCallback opts))) (\<lambda>merged.
          andThen (invoke (PostMasterMergeCallback merged) GotVal
                     (InjectIntermediateCallback D (orNoop (postMasterMergeCallback opts))
                        merged)) (\<lambda>oid.
          invoke (TagCreate oid tagName (message opts)) GotVal
            (Tag_create D oid tagName (message opts) rp))))
        else
          invoke (TagCreate (JOid (cid masterCommit)) tagName (message opts)) GotVal
            (Tag_create D (JOid (cid masterCommit)) tagName (message opts) rp)) (\<lambda>_.
     andThen
       (if keepBranch opts then resolve ()
        else
          invoke (SafelyDeleteBranch hotfixBranchName masterBranchName) (\<lambda>_. Done)
            (Repo_safelyDeleteBranch D rp hotfixBranchName masterBranchName
               (orNoop (postCheckoutHook opts)))) (\<lambda>_.
     resolve mergeCommit))))))))"

section \<open>The two workflows side by side\<close>

datatype flow = Release | Hotfix


definition finish ::
  "flow \<Rightarrow> ('r, 'h) deps \<Rightarrow> 'h option \<Rightarrow> string option \<Rightarrow> 'r options \<Rightarrow> ('r, jsval) promise" where
  "finish f = (case f of Release \<Rightarrow> finishRelease | Hotfix \<Rightarrow> finishHotfix)"

text \<open>The configuration keys in which the two workflows differ.\<close>

definition basePrefix :: "flow \<Rightarrow> config \<Rightarrow> string" where
  "basePrefix f = (case f of Release \<Rightarrow> gitflow_prefix_release | Hotfix \<Rightarrow> gitflow_prefix_hotfix)"


text \<open>What a settled promise is read for: its result, the state it leaves, the calls it made.\<close>

definition result :: "(error + 'a) \<times> 'r \<times> event list \<Rightarrow> error + 'a" where
  "result x = fst x"

definition final :: "(error + 'a) \<times> 'r \<times> event list \<Rightarrow> 'r" where
  "final x = fst (snd x)"

definition log :: "(error + 'a) \<times> 'r \<times> event list \<Rightarrow> event list" where
  "log x = snd (snd x)"

definition calls :: "(error + 'a) \<times> 'r \<times> event list \<Rightarrow> call list" where
  "calls x = map fst (log x)"

section \<open>A repository to run the workflows on\<close>

text \<open>
  The collaborators are not among the sources. To run the workflows, and for what the
  spec says of a collaborator itself, they are modelled on a small repository: the
  settings, the local branches and their targets, the commits of the object store, the
  branch that HEAD points at, and the tags.
\<close>

record repository =
  settings :: "string \<rightharpoonup> string"
  branches :: "string \<rightharpoonup> oid"
  commits :: "oid \<rightharpoonup> commit"
  HEAD :: string
  tags :: "(string \<times> oid \<times> jsval) list"

definition succeed :: "'a \<Rightarrow> ('r, 'a) operation" where
  "succeed x r = (Inr x, r)"

definition fail :: "string \<Rightarrow> ('r, 'a) operation" where
  "fail msg r = (Inl (Error msg), r)"

definition thenOp :: "('r, 'a) operation \<Rightarrow> ('a \<Rightarrow> ('r, 'b) operation) \<Rightarrow> ('r, 'b) operation" where
  "thenOp p f r = (case p r of (Inl e, r1) \<Rightarrow> (Inl e, r1) | (Inr x, r1) \<Rightarrow> f x r1)"

text \<open>
  Modelled from the spec: \<^verbatim>\<open>Config.getConfig\<close>, the configuration retrieval, which the
  spec assumes to return the required keys; it rejects when one of them is not set.
\<close>

definition getConfig :: "unit \<Rightarrow> (repository, config) operation" where
  "getConfig h r =
     (case settings r ''gitflow.branch.master'' of None \<Rightarrow> fail ''config value not found'' r
      | Some m \<Rightarrow>
     (case settings r ''gitflow.branch.develop'' of None \<Rightarrow> fail ''config value not found'' r
      | Some d \<Rightarrow>
     (case settings r ''gitflow.prefix.hotfix'' of None \<Rightarrow> fail ''config value not found'' r
      | Some hf \<Rightarrow>
     (case settings r ''gitflow.prefix.release'' of None \<Rightarrow> fail ''config value not found'' r
      | Some rl \<Rightarrow>
     (case settings r ''gitflow.prefix.versiontag'' of None \<Rightarrow> fail ''config value not found'' r
      | Some vt \<Rightarrow>
     succeed \<lparr>gitflow_branch_master = m, gitflow_branch_develop = d,
              gitflow_prefix_hotfix = hf, gitflow_prefix_release = rl,
              gitflow_prefix_versiontag = vt\<rparr> r)))))"

text \<open>
  The engine's primitives, as the spec's contract of the version-control engine has them:
  a lookup fails on a name or id that does not resolve, a branch is created only under a
  new name, a checkout moves HEAD, and the branch that HEAD points at cannot be deleted.
\<close>

definition lookupBranch :: "unit \<Rightarrow> string \<Rightarrow> (repository, reference) operation" where
  "lookupBranch h name r =
     (case branches r name of
        None \<Rightarrow> fail ''branch not found'' r
      | Some target \<Rightarrow> succeed \<lparr>ref_name = name, ref_target = target\<rparr> r)"

definition lookupCommit :: "unit \<Rightarrow> string \<Rightarrow> (repository, commit) operation" where
  "lookupCommit h sha1 r =
     (case commits r sha1 of None \<Rightarrow> fail ''commit not found'' r | Some c \<Rightarrow> succeed c r)"

definition createBranch :: "unit \<Rightarrow> string \<Rightarrow> commit \<Rightarrow> (repository, reference) operation" where
  "createBranch h name c r =
     (if branches r name \<noteq> None then fail ''branch already exists'' r
      else succeed \<lparr>ref_name = name, ref_target = cid c\<rparr>
             (r\<lparr>branches := (branches r)(name \<mapsto> cid c)\<rparr>))"

definition currentHead :: "unit \<Rightarrow> (repository, reference) operation" where
  "currentHead h r = lookupBranch h (HEAD r) r"

definition checkoutBranch :: "unit \<Rightarrow> reference \<Rightarrow> (repository, unit) operation" where
  "checkoutBranch h b r =
     (if branches r (ref_name b) = None then fail ''branch not found'' r
      else succeed () (r\<lparr>HEAD := ref_name b\<rparr>))"

definition deleteBranch :: "unit \<Rightarrow> string \<Rightarrow> (repository, unit) operation" where
  "deleteBranch h name r =
     (if branches r name = None then fail ''branch not found'' r
      else if HEAD r = name then fail ''cannot delete the branch that HEAD points at'' r
      else succeed () (r\<lparr>branches := (branches r)(name := None)\<rparr>))"

text \<open>
  Modelled from the spec: \<^verbatim>\<open>utils.Repo.merge\<close>, which is not among the sources. It merges
  \<open>fromBranch\<close> into \<open>toBranch\<close>: the generated message goes through
  \<open>processMergeMessageCallback\<close> when there is one, \<open>signingCallback\<close> signs when there is
  one, a merge commit on the two targets is stored, and \<open>toBranch\<close> moves to it. Conflicts
  are not modelled.
\<close>

definition merge ::
  "reference \<Rightarrow> reference \<Rightarrow> unit \<Rightarrow> repository hook option \<Rightarrow> repository hook option
     \<Rightarrow> (repository, jsval) operation" where
  "merge toBranch fromBranch h processMessage sign =
     thenOp (lookupBranch h (ref_name toBranch)) (\<lambda>ours.
     thenOp (lookupBranch h (ref_name fromBranch)) (\<lambda>theirs.
     thenOp (case processMessage of
               None \<Rightarrow> succeed (JStr (''Merge branch '' @ ref_name fromBranch))
             | Some f \<Rightarrow> f [JStr (''Merge branch '' @ ref_name fromBranch)]) (\<lambda>msg.
     thenOp (case sign of None \<Rightarrow> succeed JUndefined | Some f \<Rightarrow> f [msg]) (\<lambda>signature.
     (\<lambda>r. let c = \<lparr>cid = ref_target ours @ ''+'' @ ref_target theirs,
                    parents = [ref_target ours, ref_target theirs],
                    cmessage = msg, csignature = signature\<rparr>
          in succeed (JOid (cid c))
               (r\<lparr>commits := (commits r)(cid c \<mapsto> c),
                  branches := (branches r)(ref_name toBranch \<mapsto> cid c)\<rparr>))))))"

text \<open>
  Modelled from the spec: \<^verbatim>\<open>utils.InjectIntermediateCallback\<close>, which is not among the
  sources. The spec has the hook's result replace the working value of the pipeline,
  "value = hook(value)", and has a finish call that passes no hook (its end-to-end
  scenario) tag the new master commit and return the develop-merge commit, where the
  default hook of the source, \<^verbatim>\<open>() => {}\<close>, returns \<^verbatim>\<open>undefined\<close>. So the value that the
  hook returns replaces the working value, and a hook that returns \<^verbatim>\<open>undefined\<close> leaves
  the working value as it is.
\<close>

definition injectIntermediateCallback :: "'r hook \<Rightarrow> jsval \<Rightarrow> ('r, jsval) operation" where
  "injectIntermediateCallback callback v =
     thenOp (callback [v]) (\<lambda>returned.
     succeed (if returned = JUndefined then v else returned))"

text \<open>
  Modelled from the spec: \<^verbatim>\<open>utils.Tag.create\<close>, which is not among the sources. It
  creates the tag \<open>name\<close> at the commit \<open>target\<close> with the message.
\<close>

definition createTag :: "jsval \<Rightarrow> string \<Rightarrow> jsval \<Rightarrow> unit \<Rightarrow> (repository, jsval) operation" where
  "createTag target name msg h r =
     (case target of
        JOid sha1 \<Rightarrow>
          if commits r sha1 = None then fail ''object not found'' r
          else if name \<in> set (map fst (tags r)) then fail ''tag already exists'' r
          else succeed (JStr name) (r\<lparr>tags := tags r @ [(name, sha1, msg)]\<rparr>)
      | _ \<Rightarrow> fail ''invalid object id'' r)"

text \<open>
  Modelled from the spec: \<^verbatim>\<open>utils.Repo.safelyDeleteBranch\<close>, which is not among the
  sources. If HEAD points at the branch to delete, the fallback branch is checked out
  first and \<open>postCheckoutHook\<close> is invoked with the old and the new target of HEAD; then
  the branch is deleted.
\<close>

definition safelyDeleteBranch ::
  "unit \<Rightarrow> string \<Rightarrow> string \<Rightarrow> repository hook \<Rightarrow> (repository, unit) operation" where
  "safelyDeleteBranch h branchName fallbackName hook =
     thenOp (currentHead h) (\<lambda>headRef.
     thenOp (if ref_name headRef = branchName then
               thenOp (lookupBranch h fallbackName) (\<lambda>fallback.
               thenOp (checkoutBranch h fallback) (\<lambda>_.
               thenOp (currentHead h) (\<lambda>newHeadRef.
               thenOp (hook [JStr (ref_target headRef), JStr (ref_target newHeadRef)]) (\<lambda>_.
               succeed ()))))
             else succeed ()) (\<lambda>_.
     deleteBranch h branchName))"

text \<open>
  Modelled from the spec: \<^verbatim>\<open>constants.ErrorMessage.REPO_REQUIRED\<close>, which is not among
  the sources. It is the message of the spec's \<open>MissingRepository\<close> in the start
  functions; the text itself is not given.
\<close>

definition repoRequired :: string where
  "repoRequired = ''A repository is required''"

text \<open>The collaborators on this repository; its handle is \<open>()\<close>.\<close>

definition engine :: "(repository, unit) deps" where
  "engine =
     \<lparr>REPO_REQUIRED = repoRequired,
      Config_getConfig = getConfig,
      Branch_lookup = lookupBranch,
      Commit_lookup = lookupCommit,
      repo_getCommit = lookupCommit,
      repo_createBranch = createBranch,
      repo_head = currentHead,
      repo_checkoutBranch = checkoutBranch,
      Repo_merge = merge,
      InjectIntermediateCallback = injectIntermediateCallback,
      Tag_create = createTag,
      Repo_safelyDeleteBranch = safelyDeleteBranch\<rparr>"

text \<open>
  A repository in the middle of release 1.0: master at \<open>m1\<close>, develop at \<open>d1\<close>, the
  release branch at \<open>r1\<close> and checked out.
\<close>

definition gitflowSettings :: "string \<rightharpoonup> string" where
  "gitflowSettings =
     [''gitflow.branch.master'' \<mapsto> ''master'', ''gitflow.branch.develop'' \<mapsto> ''develop'',
      ''gitflow.prefix.hotfix'' \<mapsto> ''hotfix/'', ''gitflow.prefix.release'' \<mapsto> ''release/'',
      ''gitflow.prefix.versiontag'' \<mapsto> ''v'']"

definition plainCommit :: "oid \<Rightarrow> oid list \<Rightarrow> commit" where
  "plainCommit sha1 ps = \<lparr>cid = sha1, parents = ps, cmessage = JStr ''work'', csignature = JUndefined\<rparr>"

definition history :: "oid \<rightharpoonup> commit" where
  "history =
     [''m1'' \<mapsto> plainCommit ''m1'' [], ''d1'' \<mapsto> plainCommit ''d1'' [''m1''],
      ''r1'' \<mapsto> plainCommit ''r1'' [''d1''], ''h1'' \<mapsto> plainCommit ''h1'' [''m1'']]"

definition midRelease :: repository where
  "midRelease =
     \<lparr>settings = gitflowSettings,
      branches = [''master'' \<mapsto> ''m1'', ''develop'' \<mapsto> ''d1'', ''release/1.0'' \<mapsto> ''r1''],
      commits = history, HEAD = ''release/1.0'', tags = []\<rparr>"

definition midHotfix :: repository where
  "midHotfix =
     \<lparr>settings = gitflowSettings,
      branches = [''master'' \<mapsto> ''m1'', ''develop'' \<mapsto> ''d1'', ''hotfix/1.0'' \<mapsto> ''h1''],
      commits = history, HEAD = ''hotfix/1.0'', tags = []\<rparr>"

definition beforeStart :: repository where
  "beforeStart =
     \<lparr>settings = gitflowSettings,
      branches = [''master'' \<mapsto> ''m1'', ''develop'' \<mapsto> ''d1''],
      commits = history, HEAD = ''develop'', tags = []\<rparr>"

text \<open>The options object \<^verbatim>\<open>{}\<close>, and hooks to pass in it.\<close>

definition noOptions :: "'r options" where
  "noOptions =
     \<lparr>keepBranch = False, message = JUndefined, processMergeMessageCallback = None,
      beforeMergeCallback = None, postDevelopMergeCallback = None,
      postMasterMergeCallback = None, postCheckoutHook = None, signingCallback = None,
      onlyMaster = False, sha = None\<rparr>"

text \<open>\<^verbatim>\<open>(x) => x\<close>\<close>

definition sameValue :: "'r hook" where
  "sameValue args r = (case args of [] \<Rightarrow> (Inr JUndefined, r) | v # _ \<Rightarrow> (Inr v, r))"

text \<open>\<^verbatim>\<open>() => { throw new Error(msg) }\<close>\<close>

definition throwing :: "string \<Rightarrow> 'r hook" where
  "throwing msg args r = (Inl (Error msg), r)"

text \<open>Options whose post-merge hooks hand the merge result on.\<close>

definition passThrough :: "'r options" where
  "passThrough =
     noOptions\<lparr>postDevelopMergeCallback := Some sameValue,
               postMasterMergeCallback := Some sameValue\<rparr>"


text \<open>Options that pass a no-op for every hook, and options that keep the branch.\<close>

definition allNoops :: "'r options" where
  "allNoops =
     noOptions\<lparr>processMergeMessageCallback := Some noop, beforeMergeCallback := Some noop,
               postDevelopMergeCallback := Some noop, postMasterMergeCallback := Some noop,
               postCheckoutHook := Some noop, signingCallback := Some noop\<rparr>"

definition keeping :: "'r options" where
  "keeping = passThrough\<lparr>keepBranch := True\<rparr>"

text \<open>The release branch already merged into master: both are at \<open>r1\<close>.\<close>

definition releaseOnMaster :: repository where
  "releaseOnMaster =
     \<lparr>settings = gitflowSettings,
      branches = [''master'' \<mapsto> ''r1'', ''develop'' \<mapsto> ''d1'', ''release/1.0'' \<mapsto> ''r1''],
      commits = history, HEAD = ''release/1.0'', tags = []\<rparr>"

section \<open>The stages of finish\<close>

text \<open>
  The two finish functions are the same chain of \<^verbatim>\<open>then\<close> callbacks, on the release
  prefix in one and the hotfix prefix in the other. The callbacks are named here, with
  the closure variables they read as arguments, and \<open>finish_stages\<close> below shows that
  each finish function is their chain.
\<close>

definition developStep ::
  "('r, 'h) deps \<Rightarrow> 'h \<Rightarrow> 'r options \<Rightarrow> string \<Rightarrow> string \<Rightarrow> reference \<Rightarrow> reference
     \<Rightarrow> commit \<Rightarrow> commit \<Rightarrow> ('r, jsval) promise" where
  "developStep D rp opts developBranchName workflowBranchName developBranch workflowBranch
     developCommit workflowCommit =
     (if \<not> (onlyMaster opts \<or> cid developCommit = cid workflowCommit) then
        andThen (invoke (BeforeMergeCallback developBranchName workflowBranchName) GotVal
                   (orNoop (beforeMergeCallback opts)
                      [JStr developBranchName, JStr workflowBranchName])) (\<lambda>_.
        andThen (invoke (Merge developBranch workflowBranch) GotVal
                   (Repo_merge D developBranch workflowBranch rp
                      (processMergeMessageCallback opts) (signingCallback opts))) (\<lambda>merged.
        invoke (PostDevelopMergeCallback merged) GotVal
          (InjectIntermediateCallback D (orNoop (postDevelopMergeCallback opts)) merged)))
      else resolve JUndefined)"

definition masterStep ::
  "('r, 'h) deps \<Rightarrow> 'h \<Rightarrow> 'r options \<Rightarrow> string \<Rightarrow> string \<Rightarrow> reference \<Rightarrow> reference
     \<Rightarrow> commit \<Rightarrow> commit \<Rightarrow> string \<Rightarrow> ('r, jsval) promise" where
  "masterStep D rp opts masterBranchName workflowBranchName masterBranch workflowBranch
     masterCommit workflowCommit tagName =
     (if \<not> (cid masterCommit = cid workflowCommit) then
        andThen (invoke (BeforeMergeCallback masterBranchName workflowBranchName) GotVal
                   (orNoop (beforeMergeCallback opts)
                      [JStr masterBranchName, JStr workflowBranchName])) (\<lambda>_.
        andThen (invoke (Merge masterBranch workflowBranch) GotVal
                   (Repo_merge D masterBranch workflowBranch rp
                      (processMergeMessageCallback opts) (signingCallback opts))) (\<lambda>merged.
        andThen (invoke (PostMasterMergeCallback merged) GotVal
                   (InjectIntermediateCallback D (orNoop (postMasterMergeCallback opts))
                      merged)) (\<lambda>oid.
        invoke (TagCreate oid tagName (message opts)) GotVal
          (Tag_create D oid tagName (message opts) rp))))
      else
        invoke (TagCreate (JOid (cid masterCommit)) tagName (message opts)) GotVal
          (Tag_create D (JOid (cid masterCommit)) tagName (message opts) rp))"

definition cleanupStep ::
  "('r, 'h) deps \<Rightarrow> 'h \<Rightarrow> 'r options \<Rightarrow> string \<Rightarrow> string \<Rightarrow> ('r, unit) promise" where
  "cleanupStep D rp opts workflowBranchName masterBranchName =
     (if keepBranch opts then resolve ()
      else
        invoke (SafelyDeleteBranch workflowBranchName masterBranchName) (\<lambda>_. Done)
          (Repo_safelyDeleteBranch D rp workflowBranchName masterBranchName
             (orNoop (postCheckoutHook opts))))"

definition afterResolution ::
  "flow \<Rightarrow> ('r, 'h) deps \<Rightarrow> 'h \<Rightarrow> 'r options \<Rightarrow> config \<Rightarrow> string \<Rightarrow> reference list
     \<Rightarrow> commit list \<Rightarrow> ('r, jsval) promise" where
  "afterResolution f D rp opts config version bs cs =
     andThen (developStep D rp opts (gitflow_branch_develop config)
                (basePrefix f config @ version) (bs ! 0) (bs ! 1) (cs ! 0) (cs ! 1))
       (\<lambda>mergeCommit.
     andThen (masterStep D rp opts (gitflow_branch_master config)
                (basePrefix f config @ version) (bs ! 2) (bs ! 1) (cs ! 2) (cs ! 1)
                (gitflow_prefix_versiontag config @ version)) (\<lambda>_.
     andThen (cleanupStep D rp opts (basePrefix f config @ version)
                (gitflow_branch_master config)) (\<lambda>_.
     resolve mergeCommit)))"

definition resolution ::
  "flow \<Rightarrow> ('r, 'h) deps \<Rightarrow> 'h \<Rightarrow> string \<Rightarrow> ('r, config \<times> reference list \<times> commit list) promise" where
  "resolution f D rp version =
     andThen (invoke GetConfig GotConfig (Config_getConfig D rp)) (\<lambda>config.
     andThen
       (Promise_all
          (map (\<lambda>branchName. invoke (BranchLookup branchName) GotRef
                                (Branch_lookup D rp branchName))
             [gitflow_branch_develop config, basePrefix f config @ version,
              gitflow_branch_master config])) (\<lambda>bs.
     andThen
       (Promise_all
          (map (\<lambda>branch. invoke (GetCommit (ref_target branch)) GotCommit
                            (repo_getCommit D rp (ref_target branch)))
             bs)) (\<lambda>cs.
     resolve (config, bs, cs))))"

definition versionRequired :: "flow \<Rightarrow> string" where
  "versionRequired f =
     (case f of Release \<Rightarrow> ''Release name is required'' | Hotfix \<Rightarrow> ''Hotfix name is required'')"

definition resolutionLog ::
  "flow \<Rightarrow> config \<Rightarrow> string \<Rightarrow> reference \<Rightarrow> reference \<Rightarrow> reference \<Rightarrow> commit \<Rightarrow> commit \<Rightarrow> commit
     \<Rightarrow> event list" where
  "resolutionLog f cfg v db wb mb dc wc mc =
     [(GetConfig, GotConfig cfg),
      (BranchLookup (gitflow_branch_develop cfg), GotRef db),
      (BranchLookup (basePrefix f cfg @ v), GotRef wb),
      (BranchLookup (gitflow_branch_master cfg), GotRef mb),
      (GetCommit (ref_target db), GotCommit dc),
      (GetCommit (ref_target wb), GotCommit wc),
      (GetCommit (ref_target mb), GotCommit mc)]"


text \<open>What is looked for in a log.\<close>

definition threw :: "event \<Rightarrow> bool" where
  "threw ev = (case snd ev of Threw _ \<Rightarrow> True | _ \<Rightarrow> False)"

text \<open>The calls in the log of a settled promise that resolved.\<close>

definition resolvedCalls :: "(error + 'a) \<times> 'r \<times> event list \<Rightarrow> call list" where
  "resolvedCalls x = map fst (filter (\<lambda>ev. \<not> threw ev) (log x))"

definition isMerge :: "call \<Rightarrow> bool" where
  "isMerge c = (case c of Merge _ _ \<Rightarrow> True | _ \<Rightarrow> False)"


definition isTagCreate :: "call \<Rightarrow> bool" where
  "isTagCreate c = (case c of TagCreate _ _ _ \<Rightarrow> True | _ \<Rightarrow> False)"

definition isPostDevelopMerge :: "call \<Rightarrow> bool" where
  "isPostDevelopMerge c = (case c of PostDevelopMergeCallback _ \<Rightarrow> True | _ \<Rightarrow> False)"

definition isCleanup :: "call \<Rightarrow> bool" where
  "isCleanup c =
     (case c of SafelyDeleteBranch _ _ \<Rightarrow> True | CheckoutBranch _ \<Rightarrow> True
      | PostCheckoutHook _ _ \<Rightarrow> True | _ \<Rightarrow> False)"

definition isResolution :: "call \<Rightarrow> bool" where
  "isResolution c =
     (case c of GetConfig \<Rightarrow> True | BranchLookup _ \<Rightarrow> True | GetCommit _ \<Rightarrow> True
      | _ \<Rightarrow> False)"

definition isBeforeMerge :: "call \<Rightarrow> bool" where
  "isBeforeMerge c = (case c of BeforeMergeCallback _ _ \<Rightarrow> True | _ \<Rightarrow> False)"

text \<open>
  What a logged call stands for: the member of the collaborators, or the hook of the
  options, that the source calls at that site, applied to what the label holds. A hook
  is the one given in the options, or the no-op when it was left out; a merge is
  \<^verbatim>\<open>utils.Repo.merge\<close> on the two branches, the handle and the two callbacks of the
  options; a post-merge callback is \<^verbatim>\<open>utils.InjectIntermediateCallback\<close> of that hook on
  the value; the safe deletion is given \<open>postCheckoutHook\<close>.
\<close>

definition settle :: "('a \<Rightarrow> outcome) \<Rightarrow> (error + 'a) \<times> 'r \<Rightarrow> outcome \<times> 'r" where
  "settle shown x = (case x of (Inl e, r) \<Rightarrow> (Threw e, r) | (Inr y, r) \<Rightarrow> (shown y, r))"

definition perform :: "('r, 'h) deps \<Rightarrow> 'h \<Rightarrow> 'r options \<Rightarrow> call \<Rightarrow> 'r \<Rightarrow> outcome \<times> 'r" where
  "perform D rp opts c r =
     (case c of
        GetConfig \<Rightarrow> settle GotConfig (Config_getConfig D rp r)
      | BranchLookup name \<Rightarrow> settle GotRef (Branch_lookup D rp name r)
      | GetCommit sha1 \<Rightarrow> settle GotCommit (repo_getCommit D rp sha1 r)
      | CommitLookup sha1 \<Rightarrow> settle GotCommit (Commit_lookup D rp sha1 r)
      | CreateBranch name c \<Rightarrow> settle GotRef (repo_createBranch D rp name c r)
      | Head \<Rightarrow> settle GotRef (repo_head D rp r)
      | CheckoutBranch b \<Rightarrow> settle (\<lambda>_. Done) (repo_checkoutBranch D rp b r)
      | PostCheckoutHook old new \<Rightarrow>
          settle GotVal (orNoop (postCheckoutHook opts) [JStr old, JStr new] r)
      | BeforeMergeCallback target source \<Rightarrow>
          settle GotVal (orNoop (beforeMergeCallback opts) [JStr target, JStr source] r)
      | Merge toBranch fromBranch \<Rightarrow>
          settle GotVal
            (Repo_merge D toBranch fromBranch rp
               (processMergeMessageCallback opts) (signingCallback opts) r)
      | PostDevelopMergeCallback merged \<Rightarrow>
          settle GotVal
            (InjectIntermediateCallback D (orNoop (postDevelopMergeCallback opts)) merged r)
      | PostMasterMergeCallback merged \<Rightarrow>
          settle GotVal
            (InjectIntermediateCallback D (orNoop (postMasterMergeCallback opts)) merged r)
      | TagCreate target name msg \<Rightarrow> settle GotVal (Tag_create D target name msg rp r)
      | SafelyDeleteBranch name fallback \<Rightarrow>
          settle (\<lambda>_. Done)
            (Repo_safelyDeleteBranch D rp name fallback (orNoop (postCheckoutHook opts)) r))"

text \<open>
  A log replays from \<open>r\<close> to \<open>r'\<close> when its calls, performed one after the other from
  \<open>r\<close>, each in the state that the call before it left, settle as logged and leave \<open>r'\<close>.
\<close>

fun replays ::
  "('r, 'h) deps \<Rightarrow> 'h \<Rightarrow> 'r options \<Rightarrow> event list \<Rightarrow> 'r \<Rightarrow> 'r \<Rightarrow> bool" where
  "replays D rp opts [] r r' = (r' = r)"
| "replays D rp opts (ev # evs) r r' =
     (fst (perform D rp opts (fst ev) r) = snd ev \<and>
      replays D rp opts evs (snd (perform D rp opts (fst ev) r)) r')"

text \<open>A promise whose log replays, whatever the state it starts in.\<close>

definition honest :: "('r, 'h) deps \<Rightarrow> 'h \<Rightarrow> 'r options \<Rightarrow> ('r, 'a) promise \<Rightarrow> bool" where
  "honest D rp opts p = (\<forall>r res r' t. p r = (res, r', t) \<longrightarrow> replays D rp opts t r r')"

text \<open>
  A finish call reaches the cancellation decision when the configuration, the three
  branches and their three commits resolve, each lookup in the state that the one before
  it left; \<open>rg\<close> is the state in which the decision is taken.
\<close>

definition decided ::
  "flow \<Rightarrow> ('r, 'h) deps \<Rightarrow> 'h \<Rightarrow> string \<Rightarrow> 'r \<Rightarrow> config \<Rightarrow> reference \<Rightarrow> reference \<Rightarrow> reference
     \<Rightarrow> commit \<Rightarrow> commit \<Rightarrow> commit \<Rightarrow> 'r \<Rightarrow> bool" where
  "decided f D rp v r cfg db wb mb dc wc mc rg =
     (\<exists>ra rb rc rd re rf.
        Config_getConfig D rp r = (Inr cfg, ra) \<and>
        Branch_lookup D rp (gitflow_branch_develop cfg) ra = (Inr db, rb) \<and>
        Branch_lookup D rp (basePrefix f cfg @ v) rb = (Inr wb, rc) \<and>
        Branch_lookup D rp (gitflow_branch_master cfg) rc = (Inr mb, rd) \<and>
        repo_getCommit D rp (ref_target db) rd = (Inr dc, re) \<and>
        repo_getCommit D rp (ref_target wb) re = (Inr wc, rf) \<and>
        repo_getCommit D rp (ref_target mb) rf = (Inr mc, rg))"

text \<open>
  Hooks are user code and may change the repository. What is asked of them where a
  branch is to be found again after a call: that they delete no branch themselves.
\<close>

definition deletesNoBranch :: "repository hook \<Rightarrow> bool" where
  "deletesNoBranch h =
     (\<forall>args r1 res r2 name. h args r1 = (res, r2) \<longrightarrow> branches r1 name \<noteq> None \<longrightarrow>
        branches r2 name \<noteq> None)"

definition hooksDeleteNoBranch :: "repository options \<Rightarrow> bool" where
  "hooksDeleteNoBranch opts =
     (deletesNoBranch (orNoop (beforeMergeCallback opts)) \<and>
      deletesNoBranch (orNoop (processMergeMessageCallback opts)) \<and>
      deletesNoBranch (orNoop (signingCallback opts)) \<and>
      deletesNoBranch (orNoop (postDevelopMergeCallback opts)) \<and>
      deletesNoBranch (orNoop (postMasterMergeCallback opts)))"

text \<open>An operation, or a promise, after which a branch that was there is still there.\<close>

definition keepsOp :: "string \<Rightarrow> (repository, 'a) operation \<Rightarrow> bool" where
  "keepsOp name p =
     (\<forall>r res r'. p r = (res, r') \<longrightarrow> branches r name \<noteq> None \<longrightarrow> branches r' name \<noteq> None)"

definition keepsBranch :: "string \<Rightarrow> (repository, 'a) promise \<Rightarrow> bool" where
  "keepsBranch name p =
     (\<forall>r res r' t. p r = (res, r', t) \<longrightarrow> branches r name \<noteq> None \<longrightarrow>
        branches r' name \<noteq> None)"

text \<open>
  The spec's error classes. Each function builds its own \<^verbatim>\<open>Error\<close>; the class is the set
  of the messages of the four functions.
\<close>

definition MissingRepository :: "('r, 'h) deps \<Rightarrow> error set" where
  "MissingRepository D = {Error (REPO_REQUIRED D), Error ''Repo is required''}"

definition MissingVersion :: "error set" where
  "MissingVersion =
     {Error ''Release version is required'', Error ''Hotfix version is required'',
      Error ''Release name is required'', Error ''Hotfix name is required''}"

section \<open>Running a chain\<close>

lemma andThen_assoc: "andThen (andThen p f) g = andThen p (\<lambda>x. andThen (f x) g)"
  by (rule ext) (simp add: andThen_def split: prod.splits sum.splits)

lemma andThen_resolve: "andThen (resolve x) f = f x"
  by (rule ext) (simp add: andThen_def resolve_def split: prod.splits)

lemma finish_stages:
  "finish f D repo ver opts =
     (case repo of
        None \<Rightarrow> reject (Error ''Repo is required'')
      | Some rp \<Rightarrow>
     (case truthy ver of
        None \<Rightarrow> reject (Error (versionRequired f))
      | Some version \<Rightarrow>
          andThen (resolution f D rp version) (\<lambda>(config, bs, cs).
            afterResolution f D rp opts config version bs cs)))"
  by (cases f)
     (simp_all add: finish_def finishRelease_def finishHotfix_def resolution_def
        afterResolution_def developStep_def masterStep_def cleanupStep_def basePrefix_def
        versionRequired_def Let_def andThen_assoc andThen_resolve
        split: option.splits)


lemma andThen_iff:
  "andThen p f r = (res, r', t) \<longleftrightarrow>
     (\<exists>e. p r = (Inl e, r', t) \<and> res = Inl e) \<or>
     (\<exists>x r1 t1 t2. p r = (Inr x, r1, t1) \<and> f x r1 = (res, r', t2) \<and> t = t1 @ t2)"
  by (auto simp: andThen_def split: prod.splits sum.splits)

lemma invoke_iff:
  "invoke c s f r = (res, r', t) \<longleftrightarrow>
     (\<exists>e. f r = (Inl e, r') \<and> res = Inl e \<and> t = [(c, Threw e)]) \<or>
     (\<exists>x. f r = (Inr x, r') \<and> res = Inr x \<and> t = [(c, s x)])"
  by (auto simp: invoke_def split: prod.splits sum.splits)

lemma resolve_iff: "resolve x r = (res, r', t) \<longleftrightarrow> res = Inr x \<and> r' = r \<and> t = []"
  by (auto simp: resolve_def)

lemma reject_iff: "reject e r = (res, r', t) \<longleftrightarrow> res = Inl e \<and> r' = r \<and> t = []"
  by (auto simp: reject_def)

lemma if_app: "(if c then f else g) r = (if c then f r else g r)"
  by simp

lemmas run_iffs = andThen_iff invoke_iff resolve_iff reject_iff if_app

lemma Promise_all_invokes_ok:
  "Promise_all (map (\<lambda>a. invoke (c a) s (f a)) as) r = (Inr xs, r', t) \<Longrightarrow>
     length xs = length as \<and> t = map (\<lambda>(a, x). (c a, s x)) (zip as xs)"
proof (induction as arbitrary: r r' xs t)
  case Nil
  then show ?case by (simp add: Promise_all.simps)
next
  case (Cons a as)
  then show ?case
    by (auto simp: Promise_all.simps invoke_def split: prod.splits sum.splits)
qed

lemma length3: "length xs = 3 \<Longrightarrow> \<exists>a b c. xs = [a, b, c]"
  by (auto simp: numeral_3_eq_3 length_Suc_conv)

lemma resolution_ok:
  assumes "resolution f D rp v r = (Inr (cfg, bs, cs), r1, t)"
  shows "\<exists>db wb mb dc wc mc. bs = [db, wb, mb] \<and> cs = [dc, wc, mc] \<and>
           t = [(GetConfig, GotConfig cfg),
                (BranchLookup (gitflow_branch_develop cfg), GotRef db),
                (BranchLookup (basePrefix f cfg @ v), GotRef wb),
                (BranchLookup (gitflow_branch_master cfg), GotRef mb),
                (GetCommit (ref_target db), GotCommit dc),
                (GetCommit (ref_target wb), GotCommit wc),
                (GetCommit (ref_target mb), GotCommit mc)]"
proof -
  from assms obtain ra rb tb tc where
    cfg: "Config_getConfig D rp r = (Inr cfg, ra)" and
    bs: "Promise_all
           (map (\<lambda>branchName. invoke (BranchLookup branchName) GotRef
                                 (Branch_lookup D rp branchName))
              [gitflow_branch_develop cfg, basePrefix f cfg @ v, gitflow_branch_master cfg]) ra
         = (Inr bs, rb, tb)" and
    cs: "Promise_all
           (map (\<lambda>branch. invoke (GetCommit (ref_target branch)) GotCommit
                             (repo_getCommit D rp (ref_target branch))) bs) rb
         = (Inr cs, r1, tc)" and
    t: "t = (GetConfig, GotConfig cfg) # tb @ tc"
    unfolding resolution_def by (auto simp: run_iffs)
  from Promise_all_invokes_ok[OF bs] obtain db wb mb where b3: "bs = [db, wb, mb]"
    using length3[of bs] by auto
  from Promise_all_invokes_ok[OF cs] b3 obtain dc wc mc where c3: "cs = [dc, wc, mc]"
    using length3[of cs] by auto
  from Promise_all_invokes_ok[OF bs] Promise_all_invokes_ok[OF cs] b3 c3 t show ?thesis
    by simp
qed

lemma finish_succeeds_resolution:
  assumes run: "finish f D repo ver opts r = (Inr x, r', t)"
  shows "\<exists>rp v cfg db wb mb dc wc mc r1 t2. repo = Some rp \<and> ver = Some v \<and> truthy ver = Some v \<and>
           t = resolutionLog f cfg v db wb mb dc wc mc @ t2 \<and>
           resolution f D rp v r =
             (Inr (cfg, [db, wb, mb], [dc, wc, mc]), r1, resolutionLog f cfg v db wb mb dc wc mc) \<and>
           afterResolution f D rp opts cfg v [db, wb, mb] [dc, wc, mc] r1 = (Inr x, r', t2)"
proof -
  from run obtain rp v where rp: "repo = Some rp" and v: "truthy ver = Some v"
    by (auto simp: finish_stages reject_iff split: option.splits)
  from v have ver: "ver = Some v"
    by (auto simp: truthy_def split: option.splits if_splits)
  from run rp v have "andThen (resolution f D rp v) (\<lambda>(config, bs, cs).
            afterResolution f D rp opts config v bs cs) r = (Inr x, r', t)"
    by (simp add: finish_stages)
  then obtain cfg bs cs r1 t1 t2 where
    res: "resolution f D rp v r = (Inr (cfg, bs, cs), r1, t1)"
      "afterResolution f D rp opts cfg v bs cs r1 = (Inr x, r', t2)" "t = t1 @ t2"
    by (auto simp: andThen_iff)
  from resolution_ok[OF res(1)] res rp v ver show ?thesis
    by (auto simp: resolutionLog_def)
qed

lemmas stage_defs = afterResolution_def developStep_def masterStep_def cleanupStep_def

lemma Promise_all_invokes_calls:
  "Promise_all (map (\<lambda>a. invoke (c a) s (f a)) as) r = (res, r', t) \<Longrightarrow>
     map fst t = map c as"
proof (induction as arbitrary: r r' res t)
  case Nil
  then show ?case by (simp add: Promise_all.simps)
next
  case (Cons a as)
  then show ?case
    by (auto simp: Promise_all.simps invoke_def split: prod.splits sum.splits)
qed

lemma resolution_calls:
  assumes "resolution f D rp v r = (res, r1, t)"
  shows "list_all isResolution (map fst t)"
proof (cases res)
  case (Inr x)
  obtain cfg bs cs where "x = (cfg, bs, cs)" by (cases x) auto
  with Inr assms resolution_ok[of f D rp v r cfg bs cs r1 t] show ?thesis
    by (auto simp: isResolution_def)
next
  case (Inl e)
  with assms have "resolution f D rp v r = (Inl e, r1, t)" by simp
  then consider
      (a) "t = [(GetConfig, Threw e)]"
    | (b) cfg ra tb where
        "Promise_all
           (map (\<lambda>branchName. invoke (BranchLookup branchName) GotRef
                                 (Branch_lookup D rp branchName))
              [gitflow_branch_develop cfg, basePrefix f cfg @ v, gitflow_branch_master cfg]) ra
         = (Inl e, r1, tb)" "t = (GetConfig, GotConfig cfg) # tb"
    | (c) cfg ra bs rb tb tc where
        "Promise_all
           (map (\<lambda>branchName. invoke (BranchLookup branchName) GotRef
                                 (Branch_lookup D rp branchName))
              [gitflow_branch_develop cfg, basePrefix f cfg @ v, gitflow_branch_master cfg]) ra
         = (Inr bs, rb, tb)"
        "Promise_all
           (map (\<lambda>branch. invoke (GetCommit (ref_target branch)) GotCommit
                             (repo_getCommit D rp (ref_target branch))) bs) rb
         = (Inl e, r1, tc)" "t = (GetConfig, GotConfig cfg) # tb @ tc"
    unfolding resolution_def by (auto simp: run_iffs)
  then show ?thesis
  proof cases
    case a
    then show ?thesis by (simp add: isResolution_def)
  next
    case b
    with Promise_all_invokes_calls[OF b(1)] show ?thesis by (simp add: isResolution_def)
  next
    case c
    with Promise_all_invokes_calls[OF c(1)] Promise_all_invokes_calls[OF c(2)] show ?thesis
      by (simp add: isResolution_def list_all_iff)
  qed
qed

lemma afterResolution_skips_develop:
  "onlyMaster opts \<or> cid dc = cid wc \<Longrightarrow>
     afterResolution f D rp (opts\<lparr>postDevelopMergeCallback := h\<rparr>) cfg v [db, wb, mb] [dc, wc, mc] =
     afterResolution f D rp opts cfg v [db, wb, mb] [dc, wc, mc]"
  by (simp add: stage_defs)

lemma afterResolution_keepBranch:
  "keepBranch opts \<Longrightarrow>
     afterResolution f D rp (opts\<lparr>postCheckoutHook := h\<rparr>) cfg v bs cs =
     afterResolution f D rp opts cfg v bs cs"
  by (simp add: stage_defs)

lemma case_option_app:
  "(case x of None \<Rightarrow> p | Some s \<Rightarrow> q s) r = (case x of None \<Rightarrow> p r | Some s \<Rightarrow> q s r)"
  by (cases x) auto







lemma afterResolution_defaults:
  "afterResolution f D rp
     (opts\<lparr>beforeMergeCallback := None, postDevelopMergeCallback := None,
           postMasterMergeCallback := None, postCheckoutHook := None\<rparr>) cfg v bs cs =
   afterResolution f D rp
     (opts\<lparr>beforeMergeCallback := Some noop, postDevelopMergeCallback := Some noop,
           postMasterMergeCallback := Some noop, postCheckoutHook := Some noop\<rparr>) cfg v bs cs"
  by (simp add: stage_defs orNoop_def)

lemma afterResolution_merge_given:
  "afterResolution f
     (D\<lparr>Repo_merge := (\<lambda>toBranch fromBranch h given1 given2.
          Repo_merge D toBranch fromBranch h
            (processMergeMessageCallback opts) (signingCallback opts))\<rparr>)
     rp opts cfg v bs cs =
   afterResolution f D rp opts cfg v bs cs"
  by (simp add: stage_defs)

lemma resolution_merge_given:
  "resolution f (D\<lparr>Repo_merge := g\<rparr>) rp v = resolution f D rp v"
  by (simp add: resolution_def)

lemma keepsBranch_andThen:
  "keepsBranch n p \<Longrightarrow> (\<And>x. keepsBranch n (g x)) \<Longrightarrow> keepsBranch n (andThen p g)"
  unfolding keepsBranch_def andThen_iff by blast

lemma keepsBranch_resolve: "keepsBranch n (resolve x)"
  by (simp add: keepsBranch_def resolve_iff)

lemma keepsBranch_invoke: "keepsOp n p \<Longrightarrow> keepsBranch n (invoke c s p)"
  unfolding keepsBranch_def keepsOp_def invoke_iff by blast

lemma keepsOp_thenOp:
  "keepsOp n p \<Longrightarrow> (\<And>x. keepsOp n (g x)) \<Longrightarrow> keepsOp n (thenOp p g)"
  unfolding keepsOp_def thenOp_def
  by (auto split: prod.splits sum.splits)

lemma keepsOp_succeed: "keepsOp n (succeed x)"
  by (simp add: keepsOp_def succeed_def)

lemma keepsOp_hook: "deletesNoBranch h \<Longrightarrow> keepsOp n (h args)"
  unfolding keepsOp_def deletesNoBranch_def by blast

lemma keepsOp_lookupBranch: "keepsOp n (lookupBranch h name)"
  by (auto simp: keepsOp_def lookupBranch_def succeed_def fail_def split: option.splits)

lemma keepsOp_orNoop_case:
  "deletesNoBranch (orNoop cb) \<Longrightarrow>
     keepsOp n (case cb of None \<Rightarrow> succeed v | Some f \<Rightarrow> f args)"
  by (cases cb) (auto simp: orNoop_def keepsOp_succeed keepsOp_hook)

lemma keepsOp_merge:
  "deletesNoBranch (orNoop pm) \<Longrightarrow> deletesNoBranch (orNoop sg) \<Longrightarrow>
     keepsOp n (merge toBranch fromBranch h pm sg)"
  unfolding merge_def
  by (intro keepsOp_thenOp keepsOp_lookupBranch keepsOp_orNoop_case)
     (auto simp: keepsOp_def succeed_def Let_def)

lemma keepsOp_createTag: "keepsOp n (createTag target name msg h)"
  by (auto simp: keepsOp_def createTag_def succeed_def fail_def split: jsval.splits if_splits)

lemma keepsOp_orNoop: "deletesNoBranch (orNoop cb) \<Longrightarrow> keepsOp n (orNoop cb args)"
  by (rule keepsOp_hook)

lemma keepsOp_inject:
  "deletesNoBranch (orNoop cb) \<Longrightarrow> keepsOp n (injectIntermediateCallback (orNoop cb) v)"
  unfolding injectIntermediateCallback_def
  by (intro keepsOp_thenOp keepsOp_hook keepsOp_succeed)

lemma afterResolution_keeps:
  assumes "hooksDeleteNoBranch opts" "keepBranch opts"
  shows "keepsBranch n (afterResolution f engine rp opts cfg v bs cs)"
  using assms unfolding stage_defs hooksDeleteNoBranch_def
  by (auto intro!: keepsBranch_andThen keepsBranch_resolve keepsBranch_invoke keepsOp_orNoop
        keepsOp_merge keepsOp_createTag keepsOp_inject simp: engine_def)


lemma lookupBranch_reads: "lookupBranch h name r = (res, r') \<Longrightarrow> r' = r"
  by (auto simp: lookupBranch_def succeed_def fail_def split: option.splits)

lemma getConfig_reads: "getConfig h r = (res, r') \<Longrightarrow> r' = r"
  by (auto simp: getConfig_def succeed_def fail_def split: option.splits)

lemma lookupCommit_reads: "lookupCommit h sha1 r = (res, r') \<Longrightarrow> r' = r"
  by (auto simp: lookupCommit_def succeed_def fail_def split: option.splits)

lemma lookupBranch_ok: "lookupBranch h name r = (Inr b, r') \<Longrightarrow> branches r name \<noteq> None"
  by (auto simp: lookupBranch_def succeed_def fail_def split: option.splits)

lemma Promise_all_reads:
  "(\<And>a r res r'. f a r = (res, r') \<Longrightarrow> r' = r) \<Longrightarrow>
     Promise_all (map (\<lambda>a. invoke (c a) s (f a)) as) r = (res, r', t) \<Longrightarrow> r' = r"
proof (induction as arbitrary: r r' res t)
  case Nil
  then show ?case by (simp add: Promise_all.simps)
next
  case (Cons a as)
  obtain x r1 t1 where a: "invoke (c a) s (f a) r = (x, r1, t1)"
    by (cases "invoke (c a) s (f a) r") auto
  obtain xs r2 t2 where as: "Promise_all (map (\<lambda>a. invoke (c a) s (f a)) as) r1 = (xs, r2, t2)"
    by (cases "Promise_all (map (\<lambda>a. invoke (c a) s (f a)) as) r1") auto
  from a Cons.prems(1) have "r1 = r"
    by (auto simp: invoke_iff)
  moreover from Cons.IH[OF Cons.prems(1) as] have "r2 = r1" by simp
  moreover from Cons.prems(2) a as have "r' = r2" by (simp add: Promise_all.simps)
  ultimately show ?case by simp
qed

lemma Promise_all_lookups:
  "Promise_all (map (\<lambda>a. invoke (c a) s (lookupBranch h a)) as) r = (Inr xs, r', t) \<Longrightarrow>
     \<forall>a \<in> set as. branches r a \<noteq> None"
proof (induction as arbitrary: r r' xs t)
  case Nil
  then show ?case by simp
next
  case (Cons a as)
  from Cons.prems obtain x r1 t1 ys t2 where
    a: "lookupBranch h a r = (Inr x, r1)" and
    as: "Promise_all (map (\<lambda>a. invoke (c a) s (lookupBranch h a)) as) r1 = (Inr ys, r', t2)"
    by (auto simp: Promise_all.simps invoke_iff split: prod.splits sum.splits)
  from lookupBranch_reads[OF a] have "r1 = r" .
  with Cons.IH[OF as] lookupBranch_ok[OF a] show ?case by simp
qed

lemma engine_resolution:
  assumes "resolution f engine rp v r = (Inr (cfg, bs, cs), r1, t)"
  shows "r1 = r \<and> branches r (basePrefix f cfg @ v) \<noteq> None"
proof -
  from assms obtain ra rb tb tc where
    cfg: "getConfig rp r = (Inr cfg, ra)" and
    bs: "Promise_all
           (map (\<lambda>branchName. invoke (BranchLookup branchName) GotRef
                                 (lookupBranch rp branchName))
              [gitflow_branch_develop cfg, basePrefix f cfg @ v, gitflow_branch_master cfg]) ra
         = (Inr bs, rb, tb)" and
    cs: "Promise_all
           (map (\<lambda>branch. invoke (GetCommit (ref_target branch)) GotCommit
                             (lookupCommit rp (ref_target branch))) bs) rb
         = (Inr cs, r1, tc)"
    unfolding resolution_def by (auto simp: run_iffs engine_def)
  from getConfig_reads[OF cfg] have "ra = r" .
  moreover from Promise_all_reads[OF _ bs] lookupBranch_reads have "rb = ra" by blast
  moreover from Promise_all_reads[OF _ cs] lookupCommit_reads have "r1 = rb" by blast
  moreover from Promise_all_lookups[OF bs] have "branches ra (basePrefix f cfg @ v) \<noteq> None"
    by simp
  ultimately show ?thesis by simp
qed

lemma safelyDeleteBranch_ok:
  "safelyDeleteBranch h b m hook r = (Inr u, r') \<Longrightarrow> branches r' b = None \<and> HEAD r' \<noteq> b"
  unfolding safelyDeleteBranch_def thenOp_def deleteBranch_def
  by (auto simp: succeed_def fail_def split: prod.splits sum.splits if_splits)

lemma safelyDeleteBranch_on_head:
  "HEAD r = b \<Longrightarrow> branches r b = Some old \<Longrightarrow> branches r m = Some new \<Longrightarrow>
     safelyDeleteBranch h b m hook r =
       thenOp (hook [JStr old, JStr new]) (\<lambda>_. deleteBranch h b) (r\<lparr>HEAD := m\<rparr>)"
  by (simp add: safelyDeleteBranch_def thenOp_def currentHead_def lookupBranch_def
        checkoutBranch_def succeed_def fail_def split: prod.splits sum.splits)

lemma safelyDeleteBranch_off_head:
  "HEAD r \<noteq> b \<Longrightarrow> branches r (HEAD r) \<noteq> None \<Longrightarrow>
     safelyDeleteBranch h b m hook r = deleteBranch h b r"
  by (auto simp: safelyDeleteBranch_def thenOp_def currentHead_def lookupBranch_def
        succeed_def fail_def split: prod.splits sum.splits option.splits)


section \<open>Replaying a log\<close>

text \<open>
  The log of a finish call replays: every entry is the operation that \<open>perform\<close> gives
  for its label, applied in the state that the entry before it left, and nothing else
  changes the state.
\<close>

lemma replays_append:
  "replays D rp opts (t1 @ t2) r r' \<longleftrightarrow>
     (\<exists>rm. replays D rp opts t1 r rm \<and> replays D rp opts t2 rm r')"
  by (induction t1 arbitrary: r) auto

lemma honest_andThen:
  "honest D rp opts p \<Longrightarrow> (\<And>x. honest D rp opts (g x)) \<Longrightarrow>
      honest D rp opts (andThen p g)"
  unfolding honest_def
  by (auto simp: andThen_iff replays_append) blast+

lemma honest_resolve: "honest D rp opts (resolve x)"
  by (simp add: honest_def resolve_iff)

lemma honest_reject: "honest D rp opts (reject e)"
  by (simp add: honest_def reject_iff)

lemma honest_invoke:
  "(\<And>r. perform D rp opts c r = settle s (f r)) \<Longrightarrow> honest D rp opts (invoke c
      s f)"
  by (auto simp: honest_def invoke_iff settle_def)

lemma honest_Promise_all:
  "(\<And>p. p \<in> set ps \<Longrightarrow> honest D rp opts p) \<Longrightarrow> honest D rp
      opts (Promise_all ps)"
proof (induction ps)
  case Nil
  then show ?case by (simp add: honest_def Promise_all.simps)
next
  case (Cons p ps)
  have p: "honest D rp opts p" and ps: "honest D rp opts (Promise_all ps)"
    using Cons by simp_all
  show ?case
    unfolding honest_def
  proof (intro allI impI)
    fix r res r' t
    assume run: "Promise_all (p # ps) r = (res, r', t)"
    obtain x r1 t1 where a: "p r = (x, r1, t1)" by (cases "p r") auto
    obtain xs r2 t2 where b: "Promise_all ps r1 = (xs, r2, t2)"
      by (cases "Promise_all ps r1") auto
    from run a b have "t = t1 @ t2" "r' = r2" by (simp_all add: Promise_all.simps)
    moreover from p a have "replays D rp opts t1 r r1" unfolding honest_def by blast
    moreover from ps b have "replays D rp opts t2 r1 r2" unfolding honest_def by blast
    ultimately show "replays D rp opts t r r'" by (auto simp: replays_append)
  qed
qed

lemma honest_if:
  "(c \<Longrightarrow> honest D rp opts p) \<Longrightarrow> (\<not> c \<Longrightarrow> honest
      D rp opts q) \<Longrightarrow>
     honest D rp opts (if c then p else q)"
  by simp

lemma honest_resolution: "honest D rp opts (resolution f D rp v)"
  unfolding resolution_def
  by (intro honest_andThen honest_resolve honest_Promise_all)
     (auto intro!: honest_invoke simp: perform_def)

lemma honest_afterResolution: "honest D rp opts (afterResolution f D rp opts cfg v bs cs)"
  unfolding stage_defs
  by (intro honest_andThen honest_resolve honest_if honest_invoke)
     (simp_all add: perform_def)

lemma finish_replays:
  assumes "finish f D (Some rp) ver opts r = (res, r', t)"
  shows "replays D rp opts t r r'"
proof (cases "truthy ver")
  case None
  with assms show ?thesis by (simp add: finish_stages reject_iff)
next
  case (Some v)
  have "honest D rp opts (andThen (resolution f D rp v) (\<lambda>(config, bs, cs).
            afterResolution f D rp opts config v bs cs))"
    by (intro honest_andThen honest_resolution) (auto simp: honest_afterResolution)
  with assms Some show ?thesis
    unfolding honest_def by (simp add: finish_stages)
qed

lemma Promise_all3_ok:
  "Promise_all [invoke c1 s f1, invoke c2 s f2, invoke c3 s f3] r = (Inr xs, r', t)
      \<longleftrightarrow>
     (\<exists>x1 x2 x3 r1 r2. f1 r = (Inr x1, r1) \<and> f2 r1 = (Inr x2, r2) \<and> f3 r2 =
         (Inr x3, r') \<and>
        xs = [x1, x2, x3] \<and> t = [(c1, s x1), (c2, s x2), (c3, s x3)])"
  by (auto simp: Promise_all.simps invoke_def split: prod.splits sum.splits)

lemma decided_resolution:
  "decided f D rp v r cfg db wb mb dc wc mc rg \<longleftrightarrow>
     resolution f D rp v r =
       (Inr (cfg, [db, wb, mb], [dc, wc, mc]), rg, resolutionLog f cfg v db wb mb dc wc mc)"
  unfolding decided_def resolution_def resolutionLog_def
  by (auto simp: andThen_iff invoke_iff resolve_iff Promise_all3_ok)

section \<open>The steps of a finish call\<close>

lemma finish_decided:
  assumes "decided f D rp v r cfg db wb mb dc wc mc rg" "v \<noteq> []"
    and "finish f D (Some rp) (Some v) opts r = (res, r', t)"
  shows "\<exists>t2. t = resolutionLog f cfg v db wb mb dc wc mc @ t2 \<and>
           afterResolution f D rp opts cfg v [db, wb, mb] [dc, wc, mc] rg = (res, r', t2)"
  using assms
  by (auto simp: finish_stages truthy_def decided_resolution andThen_def split: prod.splits)

lemma finish_succeeds_decided:
  assumes run: "finish f D repo ver opts r = (Inr x, r', t)"
  shows "\<exists>rp v cfg db wb mb dc wc mc rg t2. repo = Some rp \<and> ver = Some v \<and> v
      \<noteq> [] \<and>
           decided f D rp v r cfg db wb mb dc wc mc rg \<and>
           t = resolutionLog f cfg v db wb mb dc wc mc @ t2 \<and>
           afterResolution f D rp opts cfg v [db, wb, mb] [dc, wc, mc] rg = (Inr x, r', t2)"
proof -
  from finish_succeeds_resolution[OF run] obtain rp v cfg db wb mb dc wc mc r1 t2 where
    a: "repo = Some rp" "ver = Some v" "truthy ver = Some v"
       "t = resolutionLog f cfg v db wb mb dc wc mc @ t2"
       "resolution f D rp v r =
          (Inr (cfg, [db, wb, mb], [dc, wc, mc]), r1, resolutionLog f cfg v db wb mb dc wc mc)"
       "afterResolution f D rp opts cfg v [db, wb, mb] [dc, wc, mc] r1 = (Inr x, r', t2)"
    by blast
  from a(2,3) have "v \<noteq> []" by (auto simp: truthy_def split: if_splits)
  moreover from a(5) have "decided f D rp v r cfg db wb mb dc wc mc r1"
    by (simp add: decided_resolution)
  ultimately show ?thesis using a by blast
qed

lemma afterResolution_ok:
  assumes "afterResolution f D rp opts cfg v [db, wb, mb] [dc, wc, mc] s = (Inr x, r', t)"
  shows "\<exists>z sD sM tD tM tC.
     developStep D rp opts (gitflow_branch_develop cfg) (basePrefix f cfg @ v) db wb dc wc s
       = (Inr x, sD, tD) \<and>
     masterStep D rp opts (gitflow_branch_master cfg) (basePrefix f cfg @ v) mb wb mc wc
       (gitflow_prefix_versiontag cfg @ v) sD = (Inr z, sM, tM) \<and>
     cleanupStep D rp opts (basePrefix f cfg @ v) (gitflow_branch_master cfg) sM
       = (Inr (), r', tC) \<and>
     t = tD @ tM @ tC"
  using assms by (auto simp: afterResolution_def andThen_iff resolve_iff)

lemma developStep_ok:
  assumes "developStep D rp opts dn wn db wb dc wc s = (Inr x, s', t)"
  shows "if onlyMaster opts \<or> cid dc = cid wc then x = JUndefined \<and> s' = s \<and> t = []
     else \<exists>u m s1 s2.
       orNoop (beforeMergeCallback opts) [JStr dn, JStr wn] s = (Inr u, s1) \<and>
       Repo_merge D db wb rp (processMergeMessageCallback opts) (signingCallback opts) s1
         = (Inr m, s2) \<and>
       InjectIntermediateCallback D (orNoop (postDevelopMergeCallback opts)) m s2 = (Inr x, s')
           \<and>
       t = [(BeforeMergeCallback dn wn, GotVal u), (Merge db wb, GotVal m),
            (PostDevelopMergeCallback m, GotVal x)]"
  using assms by (auto simp: developStep_def run_iffs split: if_splits)

lemma masterStep_ok:
  assumes "masterStep D rp opts mn wn mb wb mc wc tagName s = (Inr z, s', t)"
  shows "if cid mc = cid wc then
       Tag_create D (JOid (cid mc)) tagName (message opts) rp s = (Inr z, s') \<and>
       t = [(TagCreate (JOid (cid mc)) tagName (message opts), GotVal z)]
     else \<exists>u m target s1 s2 s3.
       orNoop (beforeMergeCallback opts) [JStr mn, JStr wn] s = (Inr u, s1) \<and>
       Repo_merge D mb wb rp (processMergeMessageCallback opts) (signingCallback opts) s1
         = (Inr m, s2) \<and>
       InjectIntermediateCallback D (orNoop (postMasterMergeCallback opts)) m s2
         = (Inr target, s3) \<and>
       Tag_create D target tagName (message opts) rp s3 = (Inr z, s') \<and>
       t = [(BeforeMergeCallback mn wn, GotVal u), (Merge mb wb, GotVal m),
            (PostMasterMergeCallback m, GotVal target),
            (TagCreate target tagName (message opts), GotVal z)]"
  using assms by (auto simp: masterStep_def run_iffs split: if_splits)

lemma cleanupStep_ok:
  assumes "cleanupStep D rp opts wn mn s = (Inr u, s', t)"
  shows "if keepBranch opts then s' = s \<and> t = []
     else Repo_safelyDeleteBranch D rp wn mn (orNoop (postCheckoutHook opts)) s = (Inr (), s')
         \<and>
          t = [(SafelyDeleteBranch wn mn, Done)]"
  using assms by (auto simp: cleanupStep_def run_iffs split: if_splits)


lemma merges_called:
  assumes rest: "afterResolution f D rp opts cfg v [db, wb, mb] [dc, wc, mc] rg = (res, r', t2)"
  shows "prefix (filter isMerge (map fst t2))
           ((if onlyMaster opts \<or> cid dc = cid wc then [] else [Merge db wb]) @
            (if cid mc = cid wc then [] else [Merge mb wb])) \<and>
         ((\<exists>x. res = Inr x) \<longrightarrow>
          filter isMerge (map fst t2) =
           ((if onlyMaster opts \<or> cid dc = cid wc then [] else [Merge db wb]) @
            (if cid mc = cid wc then [] else [Merge mb wb]))) \<and>
         (filter isMerge (map fst t2) =
           ((if onlyMaster opts \<or> cid dc = cid wc then [] else [Merge db wb]) @
            (if cid mc = cid wc then [] else [Merge mb wb])) \<or>
          t2 \<noteq> [] \<and> threw (last t2) \<and>
          (isBeforeMerge (fst (last t2)) \<or> fst (last t2) = Merge db wb \<or>
           isPostDevelopMerge (fst (last t2))))"
  using rest
  by (auto simp: stage_defs run_iffs isMerge_def isBeforeMerge_def isPostDevelopMerge_def
        threw_def split: if_splits)

lemma merges_resolved:
  assumes rest: "afterResolution f D rp opts cfg v [db, wb, mb] [dc, wc, mc] rg = (res, r', t2)"
  shows "prefix (filter isMerge (map fst (filter (\<lambda>ev. \<not> threw ev) t2)))
           ((if onlyMaster opts \<or> cid dc = cid wc then [] else [Merge db wb]) @
            (if cid mc = cid wc then [] else [Merge mb wb])) \<and>
         ((\<exists>x. res = Inr x) \<longrightarrow>
          filter isMerge (map fst (filter (\<lambda>ev. \<not> threw ev) t2)) =
           ((if onlyMaster opts \<or> cid dc = cid wc then [] else [Merge db wb]) @
            (if cid mc = cid wc then [] else [Merge mb wb]))) \<and>
         (filter isMerge (map fst (filter (\<lambda>ev. \<not> threw ev) t2)) =
           ((if onlyMaster opts \<or> cid dc = cid wc then [] else [Merge db wb]) @
            (if cid mc = cid wc then [] else [Merge mb wb])) \<or>
          t2 \<noteq> [] \<and> threw (last t2) \<and>
          (isBeforeMerge (fst (last t2)) \<or> isMerge (fst (last t2)) \<or>
           isPostDevelopMerge (fst (last t2))))"
  using rest
  by (auto simp: stage_defs run_iffs isMerge_def isBeforeMerge_def isPostDevelopMerge_def
        threw_def split: if_splits)


lemma steps_made:
  assumes rest: "afterResolution f D rp opts cfg v [db, wb, mb] [dc, wc, mc] rg = (res, r', t2)"
    and both: "\<not> onlyMaster opts" "cid dc \<noteq> cid wc" "cid mc \<noteq> cid wc"
  shows "\<exists>u1 m1 x1 u2 m2 target tagged.
     prefix (butlast t2)
       ([(BeforeMergeCallback (gitflow_branch_develop cfg) (basePrefix f cfg @ v), GotVal u1),
         (Merge db wb, GotVal m1), (PostDevelopMergeCallback m1, GotVal x1),
         (BeforeMergeCallback (gitflow_branch_master cfg) (basePrefix f cfg @ v), GotVal u2),
         (Merge mb wb, GotVal m2), (PostMasterMergeCallback m2, GotVal target),
         (TagCreate target (gitflow_prefix_versiontag cfg @ v) (message opts), GotVal tagged)] @
        (if keepBranch opts then []
         else [(SafelyDeleteBranch (basePrefix f cfg @ v) (gitflow_branch_master cfg), Done)]))
             \<and>
     prefix (map fst t2)
       ([BeforeMergeCallback (gitflow_branch_develop cfg) (basePrefix f cfg @ v),
         Merge db wb, PostDevelopMergeCallback m1,
         BeforeMergeCallback (gitflow_branch_master cfg) (basePrefix f cfg @ v),
         Merge mb wb, PostMasterMergeCallback m2,
         TagCreate target (gitflow_prefix_versiontag cfg @ v) (message opts)] @
        (if keepBranch opts then []
         else [SafelyDeleteBranch (basePrefix f cfg @ v) (gitflow_branch_master cfg)])) \<and>
     ((\<exists>x. res = Inr x) \<longrightarrow>
        res = Inr x1 \<and>
        t2 =
         [(BeforeMergeCallback (gitflow_branch_develop cfg) (basePrefix f cfg @ v), GotVal u1),
          (Merge db wb, GotVal m1), (PostDevelopMergeCallback m1, GotVal x1),
          (BeforeMergeCallback (gitflow_branch_master cfg) (basePrefix f cfg @ v), GotVal u2),
          (Merge mb wb, GotVal m2), (PostMasterMergeCallback m2, GotVal target),
          (TagCreate target (gitflow_prefix_versiontag cfg @ v) (message opts), GotVal tagged)] @
         (if keepBranch opts then []
          else [(SafelyDeleteBranch (basePrefix f cfg @ v) (gitflow_branch_master cfg), Done)]))
              \<and>
     (\<forall>e. res = Inl e \<longrightarrow> t2 \<noteq> [] \<and> snd (last t2) = Threw e)
         \<and>
     (\<forall>ev \<in> set (butlast t2). \<not> threw ev)"
  using rest both
  by (auto simp: stage_defs run_iffs threw_def)

lemma afterResolution_chain:
  assumes rest: "afterResolution f D rp opts cfg v [db, wb, mb] [dc, wc, mc] rg = (Inr x1, r',
      t2)"
    and both: "\<not> onlyMaster opts" "cid dc \<noteq> cid wc" "cid mc \<noteq> cid wc"
  shows "\<exists>u1 m1 u2 m2 target tagged.
     t2 = ([(BeforeMergeCallback (gitflow_branch_develop cfg) (basePrefix f cfg @ v), GotVal u1),
           (Merge db wb, GotVal m1), (PostDevelopMergeCallback m1, GotVal x1),
           (BeforeMergeCallback (gitflow_branch_master cfg) (basePrefix f cfg @ v), GotVal u2),
           (Merge mb wb, GotVal m2), (PostMasterMergeCallback m2, GotVal target),
           (TagCreate target (gitflow_prefix_versiontag cfg @ v) (message opts), GotVal tagged)] @
          (if keepBranch opts then []
           else [(SafelyDeleteBranch (basePrefix f cfg @ v) (gitflow_branch_master cfg), Done)]))
               \<and>
     (\<exists>s1 s2 s3 s4 s5 s6 s7.
           orNoop (beforeMergeCallback opts) [JStr (gitflow_branch_develop cfg), JStr (basePrefix
               f cfg @ v)] rg = (Inr u1, s1) \<and>
           Repo_merge D db wb rp (processMergeMessageCallback opts) (signingCallback opts) s1 =
               (Inr m1, s2) \<and>
           InjectIntermediateCallback D (orNoop (postDevelopMergeCallback opts)) m1 s2
             = (Inr x1, s3) \<and>
           orNoop (beforeMergeCallback opts) [JStr (gitflow_branch_master cfg), JStr (basePrefix
               f cfg @ v)] s3 = (Inr u2, s4) \<and>
           Repo_merge D mb wb rp (processMergeMessageCallback opts) (signingCallback opts) s4 =
               (Inr m2, s5) \<and>
           InjectIntermediateCallback D (orNoop (postMasterMergeCallback opts)) m2 s5
             = (Inr target, s6) \<and>
           Tag_create D target (gitflow_prefix_versiontag cfg @ v) (message opts) rp s6 = (Inr
               tagged, s7) \<and>
           (if keepBranch opts then r' = s7
            else Repo_safelyDeleteBranch D rp (basePrefix f cfg @ v) (gitflow_branch_master cfg)
                (orNoop (postCheckoutHook opts)) s7
                   = (Inr (), r')))"
proof -
  from afterResolution_ok[OF rest] obtain z sD sM tD tM tC where
    dev: "developStep D rp opts (gitflow_branch_develop cfg) (basePrefix f cfg @ v) db wb dc wc
        rg = (Inr x1, sD, tD)" and
    mas: "masterStep D rp opts (gitflow_branch_master cfg) (basePrefix f cfg @ v) mb wb mc wc
        (gitflow_prefix_versiontag cfg @ v) sD = (Inr z, sM, tM)" and
    cln: "cleanupStep D rp opts (basePrefix f cfg @ v) (gitflow_branch_master cfg) sM = (Inr (),
        r', tC)" and
    t2: "t2 = tD @ tM @ tC"
    by blast
  from developStep_ok[OF dev] masterStep_ok[OF mas] cleanupStep_ok[OF cln] both t2
  show ?thesis
    by (auto split: if_splits)
qed

lemma safelyDeleteBranch_cases:
  assumes "safelyDeleteBranch h b m hook s = (Inr u, s')"
  shows "if HEAD s = b then
           (\<exists>old new w s1.
              branches s b = Some old \<and> branches s m = Some new \<and>
              hook [JStr old, JStr new] (s\<lparr>HEAD := m\<rparr>) = (Inr w, s1) \<and>
              deleteBranch h b s1 = (Inr (), s'))
         else deleteBranch h b s = (Inr (), s')"
  using assms
  unfolding safelyDeleteBranch_def thenOp_def currentHead_def lookupBranch_def
    checkoutBranch_def
  by (auto simp: succeed_def fail_def split: prod.splits sum.splits option.splits if_splits)

lemma engine_tagged:
  assumes "masterStep engine rp opts mn wn mb wb mc wc tagName s = (Inr z, s', t)"
  shows "\<exists>target sT. createTag target tagName (message opts) () sT = (Inr z, s')"
  using masterStep_ok[OF assms] by (auto simp: engine_def split: if_splits)


section \<open>Runs on the repository\<close>

lemmas promise_defs = andThen_def invoke_def resolve_def reject_def Promise_all.simps
  result_def final_def log_def calls_def orNoop_def noop_def truthy_def Let_def

lemmas engine_defs = engine_def getConfig_def lookupBranch_def lookupCommit_def
  createBranch_def currentHead_def checkoutBranch_def deleteBranch_def merge_def
  injectIntermediateCallback_def createTag_def safelyDeleteBranch_def succeed_def fail_def
  thenOp_def gitflowSettings_def history_def plainCommit_def noOptions_def passThrough_def
  sameValue_def throwing_def

lemma midRelease_log:
  "log (finish Release engine (Some ()) (Some ''1.0'') passThrough midRelease) =
     resolutionLog Release
       \<lparr>gitflow_branch_master = ''master'', gitflow_branch_develop = ''develop'',
        gitflow_prefix_hotfix = ''hotfix/'', gitflow_prefix_release = ''release/'',
        gitflow_prefix_versiontag = ''v''\<rparr> ''1.0''
       \<lparr>ref_name = ''develop'', ref_target = ''d1''\<rparr>
       \<lparr>ref_name = ''release/1.0'', ref_target = ''r1''\<rparr>
       \<lparr>ref_name = ''master'', ref_target = ''m1''\<rparr>
       (plainCommit ''d1'' [''m1'']) (plainCommit ''r1'' [''d1'']) (plainCommit ''m1'' []) @
     [(BeforeMergeCallback ''develop'' ''release/1.0'', GotVal JUndefined),
      (Merge \<lparr>ref_name = ''develop'', ref_target = ''d1''\<rparr>
         \<lparr>ref_name = ''release/1.0'', ref_target = ''r1''\<rparr>, GotVal (JOid ''d1+r1'')),
      (PostDevelopMergeCallback (JOid ''d1+r1''), GotVal (JOid ''d1+r1'')),
      (BeforeMergeCallback ''master'' ''release/1.0'', GotVal JUndefined),
      (Merge \<lparr>ref_name = ''master'', ref_target = ''m1''\<rparr>
         \<lparr>ref_name = ''release/1.0'', ref_target = ''r1''\<rparr>, GotVal (JOid ''m1+r1'')),
      (PostMasterMergeCallback (JOid ''m1+r1''), GotVal (JOid ''m1+r1'')),
      (TagCreate (JOid ''m1+r1'') ''v1.0'' JUndefined, GotVal (JStr ''v1.0'')),
      (SafelyDeleteBranch ''release/1.0'' ''master'', Done)]"
  by (simp add: finish_def finishRelease_def midRelease_def resolutionLog_def basePrefix_def
        promise_defs engine_defs)

lemma midRelease_result:
  "result (finish Release engine (Some ()) (Some ''1.0'') passThrough midRelease) =
     Inr (JOid ''d1+r1'')"
  by (simp add: finish_def finishRelease_def midRelease_def promise_defs engine_defs)

lemma passThrough_flags:
  "onlyMaster passThrough = False" "keepBranch passThrough = False"
  "message passThrough = JUndefined"
  by (simp_all add: passThrough_def noOptions_def)




lemma keeping_result:
  "result (finish Release engine (Some ()) (Some ''1.0'') keeping midRelease) =
     Inr (JOid ''d1+r1'')"
  by (simp add: finish_def finishRelease_def midRelease_def keeping_def promise_defs
        engine_defs)

lemma keeping_final:
  "branches (final (finish Release engine (Some ()) (Some ''1.0'') keeping midRelease))
     ''release/1.0'' = Some ''r1''"
  by (simp add: finish_def finishRelease_def midRelease_def keeping_def promise_defs
        engine_defs)

lemma passThrough_final:
  "branches (final (finish Release engine (Some ()) (Some ''1.0'') passThrough midRelease))
     ''release/1.0'' = None"
  "HEAD (final (finish Release engine (Some ()) (Some ''1.0'') passThrough midRelease))
     = ''master''"
  by (simp_all add: finish_def finishRelease_def midRelease_def promise_defs engine_defs)

lemma keeping_hooks: "hooksDeleteNoBranch keeping"
  by (auto simp: hooksDeleteNoBranch_def deletesNoBranch_def keeping_def passThrough_def
        noOptions_def orNoop_def noop_def sameValue_def split: list.splits)

lemma keeping_flags: "keepBranch (keeping :: repository options)"
  by (simp add: keeping_def)

lemma midRelease_decided:
  "decided Release engine () ''1.0'' midRelease
     \<lparr>gitflow_branch_master = ''master'', gitflow_branch_develop = ''develop'',
      gitflow_prefix_hotfix = ''hotfix/'', gitflow_prefix_release = ''release/'',
      gitflow_prefix_versiontag = ''v''\<rparr>
     \<lparr>ref_name = ''develop'', ref_target = ''d1''\<rparr>
     \<lparr>ref_name = ''release/1.0'', ref_target = ''r1''\<rparr>
     \<lparr>ref_name = ''master'', ref_target = ''m1''\<rparr>
     (plainCommit ''d1'' [''m1'']) (plainCommit ''r1'' [''d1'']) (plainCommit ''m1'' [])
     midRelease"
  by (simp add: decided_def midRelease_def basePrefix_def engine_defs)

lemma midHotfix_decided:
  "decided Hotfix engine () ''1.0'' midHotfix
     \<lparr>gitflow_branch_master = ''master'', gitflow_branch_develop = ''develop'',
      gitflow_prefix_hotfix = ''hotfix/'', gitflow_prefix_release = ''release/'',
      gitflow_prefix_versiontag = ''v''\<rparr>
     \<lparr>ref_name = ''develop'', ref_target = ''d1''\<rparr>
     \<lparr>ref_name = ''hotfix/1.0'', ref_target = ''h1''\<rparr>
     \<lparr>ref_name = ''master'', ref_target = ''m1''\<rparr>
     (plainCommit ''d1'' [''m1'']) (plainCommit ''h1'' [''m1'']) (plainCommit ''m1'' [])
     midHotfix"
  by (simp add: decided_def midHotfix_def basePrefix_def engine_defs)

lemma midHotfix_log:
  "log (finish Hotfix engine (Some ()) (Some ''1.0'') noOptions midHotfix) =
     resolutionLog Hotfix
       \<lparr>gitflow_branch_master = ''master'', gitflow_branch_develop = ''develop'',
        gitflow_prefix_hotfix = ''hotfix/'', gitflow_prefix_release = ''release/'',
        gitflow_prefix_versiontag = ''v''\<rparr> ''1.0''
       \<lparr>ref_name = ''develop'', ref_target = ''d1''\<rparr>
       \<lparr>ref_name = ''hotfix/1.0'', ref_target = ''h1''\<rparr>
       \<lparr>ref_name = ''master'', ref_target = ''m1''\<rparr>
       (plainCommit ''d1'' [''m1'']) (plainCommit ''h1'' [''m1'']) (plainCommit ''m1'' []) @
     [(BeforeMergeCallback ''develop'' ''hotfix/1.0'', GotVal JUndefined),
      (Merge \<lparr>ref_name = ''develop'', ref_target = ''d1''\<rparr>
         \<lparr>ref_name = ''hotfix/1.0'', ref_target = ''h1''\<rparr>, GotVal (JOid ''d1+h1'')),
      (PostDevelopMergeCallback (JOid ''d1+h1''), GotVal (JOid ''d1+h1'')),
      (BeforeMergeCallback ''master'' ''hotfix/1.0'', GotVal JUndefined),
      (Merge \<lparr>ref_name = ''master'', ref_target = ''m1''\<rparr>
         \<lparr>ref_name = ''hotfix/1.0'', ref_target = ''h1''\<rparr>, GotVal (JOid ''m1+h1'')),
      (PostMasterMergeCallback (JOid ''m1+h1''), GotVal (JOid ''m1+h1'')),
      (TagCreate (JOid ''m1+h1'') ''v1.0'' JUndefined, GotVal (JStr ''v1.0'')),
      (SafelyDeleteBranch ''hotfix/1.0'' ''master'', Done)]"
  by (simp add: finish_def finishHotfix_def midHotfix_def resolutionLog_def basePrefix_def
        promise_defs engine_defs)

lemma midHotfix_result:
  "result (finish Hotfix engine (Some ()) (Some ''1.0'') noOptions midHotfix) =
     Inr (JOid ''d1+h1'')"
  by (simp add: finish_def finishHotfix_def midHotfix_def promise_defs engine_defs)

lemma midHotfix_final:
  "branches (final (finish Hotfix engine (Some ()) (Some ''1.0'') noOptions midHotfix)) =
     [''master'' \<mapsto> ''m1+h1'', ''develop'' \<mapsto> ''d1+h1'']"
  "HEAD (final (finish Hotfix engine (Some ()) (Some ''1.0'') noOptions midHotfix)) = ''master''"
  "tags (final (finish Hotfix engine (Some ()) (Some ''1.0'') noOptions midHotfix)) =
     [(''v1.0'', ''m1+h1'', JUndefined)]"
  by (simp_all add: finish_def finishHotfix_def midHotfix_def promise_defs engine_defs fun_eq_iff)

lemma midRelease_tags:
  "tags (final (finish Release engine (Some ()) (Some ''1.0'') passThrough midRelease)) =
     [(''v1.0'', ''m1+r1'', JUndefined)]"
  by (simp add: finish_def finishRelease_def midRelease_def promise_defs engine_defs)

lemma noOptions_flags:
  "onlyMaster noOptions = False" "keepBranch noOptions = False"
  "message noOptions = JUndefined"
  by (simp_all add: noOptions_def)


lemma keepingHotfix_result:
  "result (finish Hotfix engine (Some ()) (Some ''1.0'') (noOptions\<lparr>keepBranch := True\<rparr>)
             midHotfix) = Inr (JOid ''d1+h1'')"
  by (simp add: finish_def finishHotfix_def midHotfix_def promise_defs engine_defs)

lemma keepingHotfix_final:
  "branches (final (finish Hotfix engine (Some ()) (Some ''1.0'')
                      (noOptions\<lparr>keepBranch := True\<rparr>) midHotfix))
     ''hotfix/1.0'' = Some ''h1''"
  by (simp add: finish_def finishHotfix_def midHotfix_def promise_defs engine_defs)

lemma keepingHotfix_hooks: "hooksDeleteNoBranch (noOptions\<lparr>keepBranch := True\<rparr>)"
  by (auto simp: hooksDeleteNoBranch_def deletesNoBranch_def noOptions_def orNoop_def noop_def)


section \<open>The guards on the inputs\<close>

text \<open>
  C7, as amended. A call without a repository handle rejects with the repository error of
  its function, whatever the version, and a call with a repository handle and a version
  that is absent or empty rejects with the version error of its function. Either way the
  state is the one the call started in and no call was made on a collaborator or a hook.
\<close>

theorem missing_input_guards:
  "startRelease D None ver opts r = (Inl (Error (REPO_REQUIRED D)), r, []) \<and>
   startHotfix D None ver opts r = (Inl (Error (REPO_REQUIRED D)), r, []) \<and>
   finishRelease D None ver opts r = (Inl (Error ''Repo is required''), r, []) \<and>
   finishHotfix D None ver opts r = (Inl (Error ''Repo is required''), r, []) \<and>
   {Error (REPO_REQUIRED D), Error ''Repo is required''} \<subseteq> MissingRepository D \<and>
   (ver = None \<or> ver = Some [] \<longrightarrow>
      startRelease D (Some rp) ver opts r =
        (Inl (Error ''Release version is required''), r, []) \<and>
      startHotfix D (Some rp) ver opts r =
        (Inl (Error ''Hotfix version is required''), r, []) \<and>
      finishRelease D (Some rp) ver opts r =
        (Inl (Error ''Release name is required''), r, []) \<and>
      finishHotfix D (Some rp) ver opts r =
        (Inl (Error ''Hotfix name is required''), r, []) \<and>
      {Error ''Release version is required'', Error ''Hotfix version is required'',
       Error ''Release name is required'', Error ''Hotfix name is required''}
        \<subseteq> MissingVersion)"
  by (auto simp: startRelease_def startHotfix_def finishRelease_def finishHotfix_def
        reject_def truthy_def MissingRepository_def MissingVersion_def)

theorem missing_input_guards_witness:
  "(Some [] = None \<or> Some [] = Some ([] :: string)) \<and>
   finishHotfix engine (Some ()) (Some []) noOptions midHotfix =
     (Inl (Error ''Hotfix name is required''), midHotfix, []) \<and>
   startRelease engine None (Some ''1.0'') noOptions beforeStart =
     (Inl (Error ''A repository is required''), beforeStart, [])"
  using missing_input_guards [of engine "Some []" noOptions midHotfix "()"]
    missing_input_guards [of engine "Some ''1.0''" noOptions beforeStart "()"]
  by (simp add: engine_def repoRequired_def)

text \<open>
  C7 as stated fails where both inputs are missing: the repository guard comes first, so a
  call with an empty version and no repository handle rejects with the repository error.
\<close>

theorem missing_version_counterexample:
  "result (finishRelease engine None (Some []) noOptions midRelease)
     = Inl (Error ''Repo is required'') \<and>
   Error ''Repo is required'' \<notin> MissingVersion"
  by (simp add: finishRelease_def reject_def result_def MissingVersion_def)

section \<open>Which merges are performed\<close>

text \<open>
  C1, as amended. In a finish call that reaches the cancellation decision (the
  configuration, the three branches and their three commits have resolved, \<open>rg\<close> being
  the state they left), \<^verbatim>\<open>utils.Repo.merge\<close> is called only for a merge whose condition
  holds: for the develop merge only if \<open>onlyMaster\<close> is false and the develop commit id
  differs from the id of the workflow commit, for the master merge only if the master
  commit id differs from it. The merges called are a prefix of the merges due, develop
  before master. They are exactly the merges due when the call succeeds, and whenever the
  call did not reject at a \<open>beforeMergeCallback\<close> call, at the develop merge or at the
  post-develop callback: a call that rejects later, at the tag creation for one, has made
  every merge that was due. The same holds of the merges that resolved, with the rejection
  of the master merge itself as the one further exception. The log replays: every entry
  is the operation that \<open>perform\<close> gives for its label, so that a merge entry is
  \<^verbatim>\<open>utils.Repo.merge\<close> applied to the two branches, the handle and the two callbacks of
  the options, in the state that the entry before it left.
\<close>

theorem merge_decision:
  assumes reach: "decided f D rp v r cfg db wb mb dc wc mc rg" and v: "v \<noteq> []"
  shows "replays D rp opts (log (finish f D (Some rp) (Some v) opts r)) r
           (final (finish f D (Some rp) (Some v) opts r)) \<and>
         take 7 (log (finish f D (Some rp) (Some v) opts r)) =
           resolutionLog f cfg v db wb mb dc wc mc \<and>
         prefix (filter isMerge (calls (finish f D (Some rp) (Some v) opts r)))
           ((if onlyMaster opts \<or> cid dc = cid wc then [] else [Merge db wb]) @
            (if cid mc = cid wc then [] else [Merge mb wb])) \<and>
         ((\<exists>x. result (finish f D (Some rp) (Some v) opts r) = Inr x) \<longrightarrow>
          filter isMerge (calls (finish f D (Some rp) (Some v) opts r)) =
           ((if onlyMaster opts \<or> cid dc = cid wc then [] else [Merge db wb]) @
            (if cid mc = cid wc then [] else [Merge mb wb]))) \<and>
         (filter isMerge (calls (finish f D (Some rp) (Some v) opts r)) =
           ((if onlyMaster opts \<or> cid dc = cid wc then [] else [Merge db wb]) @
            (if cid mc = cid wc then [] else [Merge mb wb])) \<or>
          threw (last (log (finish f D (Some rp) (Some v) opts r))) \<and>
          (isBeforeMerge (fst (last (log (finish f D (Some rp) (Some v) opts r)))) \<or>
           fst (last (log (finish f D (Some rp) (Some v) opts r))) = Merge db wb \<or>
           isPostDevelopMerge (fst (last (log (finish f D (Some rp) (Some v) opts r)))))) \<and>
         prefix (filter isMerge (resolvedCalls (finish f D (Some rp) (Some v) opts r)))
           ((if onlyMaster opts \<or> cid dc = cid wc then [] else [Merge db wb]) @
            (if cid mc = cid wc then [] else [Merge mb wb])) \<and>
         ((\<exists>x. result (finish f D (Some rp) (Some v) opts r) = Inr x) \<longrightarrow>
          filter isMerge (resolvedCalls (finish f D (Some rp) (Some v) opts r)) =
           ((if onlyMaster opts \<or> cid dc = cid wc then [] else [Merge db wb]) @
            (if cid mc = cid wc then [] else [Merge mb wb]))) \<and>
         (filter isMerge (resolvedCalls (finish f D (Some rp) (Some v) opts r)) =
           ((if onlyMaster opts \<or> cid dc = cid wc then [] else [Merge db wb]) @
            (if cid mc = cid wc then [] else [Merge mb wb])) \<or>
          threw (last (log (finish f D (Some rp) (Some v) opts r))) \<and>
          (isBeforeMerge (fst (last (log (finish f D (Some rp) (Some v) opts r)))) \<or>
           isMerge (fst (last (log (finish f D (Some rp) (Some v) opts r)))) \<or>
           isPostDevelopMerge (fst (last (log (finish f D (Some rp) (Some v) opts r))))))"
proof -
  obtain res r' t where run: "finish f D (Some rp) (Some v) opts r = (res, r', t)"
    by (cases "finish f D (Some rp) (Some v) opts r") auto
  from finish_decided[OF reach v run] obtain t2 where
    t: "t = resolutionLog f cfg v db wb mb dc wc mc @ t2" and
    rest: "afterResolution f D rp opts cfg v [db, wb, mb] [dc, wc, mc] rg = (res, r', t2)"
    by blast
  have quiet: "filter isMerge (map fst (resolutionLog f cfg v db wb mb dc wc mc)) = []"
    "filter (\<lambda>ev. \<not> threw ev) (resolutionLog f cfg v db wb mb dc wc mc) =
        resolutionLog f cfg v db wb mb dc wc mc"
    "length (resolutionLog f cfg v db wb mb dc wc mc) = 7"
    by (simp_all add: resolutionLog_def isMerge_def threw_def)
  have made: "filter isMerge (map fst t) = filter isMerge (map fst t2)"
    "filter isMerge (map fst (filter (\<lambda>ev. \<not> threw ev) t)) =
       filter isMerge (map fst (filter (\<lambda>ev. \<not> threw ev) t2))"
    "take 7 t = resolutionLog f cfg v db wb mb dc wc mc"
    "t2 \<noteq> [] \<Longrightarrow> last t = last t2"
    unfolding t using quiet by simp_all
  have eqs: "log (finish f D (Some rp) (Some v) opts r) = t"
    "calls (finish f D (Some rp) (Some v) opts r) = map fst t"
    "resolvedCalls (finish f D (Some rp) (Some v) opts r) = map fst (filter (\<lambda>ev. \<not>
        threw ev) t)"
    "final (finish f D (Some rp) (Some v) opts r) = r'"
    "result (finish f D (Some rp) (Some v) opts r) = res"
    using run by (simp_all add: calls_def resolvedCalls_def log_def result_def final_def)
  note called = merges_called[OF rest] and resolved = merges_resolved[OF rest]
  have c1: "replays D rp opts t r r'"
    using finish_replays[OF run] .
  have c2: "take 7 t = resolutionLog f cfg v db wb mb dc wc mc"
    using made(3) .
  have c3: "prefix (filter isMerge (map fst t))
           ((if onlyMaster opts \<or> cid dc = cid wc then [] else [Merge db wb]) @
            (if cid mc = cid wc then [] else [Merge mb wb]))"
    using called made(1) by simp
  have c4: "(\<exists>x. res = Inr x) \<longrightarrow>
          filter isMerge (map fst t) =
           ((if onlyMaster opts \<or> cid dc = cid wc then [] else [Merge db wb]) @
            (if cid mc = cid wc then [] else [Merge mb wb]))"
    using called made(1) by simp
  have c5: "filter isMerge (map fst t) =
           ((if onlyMaster opts \<or> cid dc = cid wc then [] else [Merge db wb]) @
            (if cid mc = cid wc then [] else [Merge mb wb])) \<or>
          threw (last t) \<and>
          (isBeforeMerge (fst (last t)) \<or>
           fst (last t) = Merge db wb \<or>
           isPostDevelopMerge (fst (last t)))"
    using called[THEN conjunct2, THEN conjunct2] made(1,4) by auto
  have c6: "prefix (filter isMerge (map fst (filter (\<lambda>ev. \<not> threw ev) t)))
           ((if onlyMaster opts \<or> cid dc = cid wc then [] else [Merge db wb]) @
            (if cid mc = cid wc then [] else [Merge mb wb]))"
    using resolved made(2) by simp
  have c7: "(\<exists>x. res = Inr x) \<longrightarrow>
          filter isMerge (map fst (filter (\<lambda>ev. \<not> threw ev) t)) =
           ((if onlyMaster opts \<or> cid dc = cid wc then [] else [Merge db wb]) @
            (if cid mc = cid wc then [] else [Merge mb wb]))"
    using resolved made(2) by simp
  have c8: "filter isMerge (map fst (filter (\<lambda>ev. \<not> threw ev) t)) =
           ((if onlyMaster opts \<or> cid dc = cid wc then [] else [Merge db wb]) @
            (if cid mc = cid wc then [] else [Merge mb wb])) \<or>
          threw (last t) \<and>
          (isBeforeMerge (fst (last t)) \<or>
           isMerge (fst (last t)) \<or>
           isPostDevelopMerge (fst (last t)))"
    using resolved[THEN conjunct2, THEN conjunct2] made(2,4) by auto
  show ?thesis
    unfolding eqs by (intro conjI c1 c2 c3 c4 c5 c6 c7 c8)
qed

theorem merge_decision_witness:
  "filter isMerge (calls (finish Release engine (Some ()) (Some ''1.0'') passThrough midRelease)) =
     [Merge \<lparr>ref_name = ''develop'', ref_target = ''d1''\<rparr>
        \<lparr>ref_name = ''release/1.0'', ref_target = ''r1''\<rparr>,
      Merge \<lparr>ref_name = ''master'', ref_target = ''m1''\<rparr>
        \<lparr>ref_name = ''release/1.0'', ref_target = ''r1''\<rparr>] \<and>
   filter isMerge (calls (finish Hotfix engine (Some ()) (Some ''1.0'') noOptions midHotfix)) =
     [Merge \<lparr>ref_name = ''develop'', ref_target = ''d1''\<rparr>
        \<lparr>ref_name = ''hotfix/1.0'', ref_target = ''h1''\<rparr>,
      Merge \<lparr>ref_name = ''master'', ref_target = ''m1''\<rparr>
        \<lparr>ref_name = ''hotfix/1.0'', ref_target = ''h1''\<rparr>] \<and>
   replays engine () noOptions
     (log (finish Hotfix engine (Some ()) (Some ''1.0'') noOptions midHotfix)) midHotfix
     (final (finish Hotfix engine (Some ()) (Some ''1.0'') noOptions midHotfix))"
  using merge_decision [OF midRelease_decided, of passThrough]
    merge_decision [OF midHotfix_decided, of noOptions]
  by (simp add: midRelease_result midHotfix_result passThrough_flags noOptions_flags
        plainCommit_def)

text \<open>
  C1 as stated fails on a call that rejects after the decision: here the develop and the
  master commit both differ from the release commit and \<open>onlyMaster\<close> is false, but
  \<open>beforeMergeCallback\<close> throws, and no merge is performed.
\<close>

theorem merge_decision_counterexample:
  "log (finishRelease engine (Some ()) (Some ''1.0'')
          (noOptions\<lparr>beforeMergeCallback := Some (throwing ''stop'')\<rparr>) midRelease) =
     resolutionLog Release
       \<lparr>gitflow_branch_master = ''master'', gitflow_branch_develop = ''develop'',
        gitflow_prefix_hotfix = ''hotfix/'', gitflow_prefix_release = ''release/'',
        gitflow_prefix_versiontag = ''v''\<rparr> ''1.0''
       \<lparr>ref_name = ''develop'', ref_target = ''d1''\<rparr>
       \<lparr>ref_name = ''release/1.0'', ref_target = ''r1''\<rparr>
       \<lparr>ref_name = ''master'', ref_target = ''m1''\<rparr>
       (plainCommit ''d1'' [''m1'']) (plainCommit ''r1'' [''d1'']) (plainCommit ''m1'' []) @
     [(BeforeMergeCallback ''develop'' ''release/1.0'', Threw (Error ''stop''))] \<and>
   \<not> onlyMaster (noOptions\<lparr>beforeMergeCallback := Some (throwing ''stop'')\<rparr> :: repository options) \<and>
   cid (plainCommit ''d1'' [''m1'']) \<noteq> cid (plainCommit ''r1'' [''d1'']) \<and>
   cid (plainCommit ''m1'' []) \<noteq> cid (plainCommit ''r1'' [''d1'']) \<and>
   filter isMerge (calls (finishRelease engine (Some ()) (Some ''1.0'')
          (noOptions\<lparr>beforeMergeCallback := Some (throwing ''stop'')\<rparr>) midRelease)) = []"
  by (simp add: finishRelease_def midRelease_def resolutionLog_def basePrefix_def
        promise_defs engine_defs isMerge_def)

section \<open>The order of the steps\<close>

text \<open>
  C6. In a finish call that reaches the cancellation decision with neither merge skipped,
  the entries of the log after the resolution are, in this order: \<open>beforeMergeCallback\<close>
  on the develop and the workflow branch name, the develop merge, the post-develop
  callback on what the merge resolved to, \<open>beforeMergeCallback\<close> on the master and the
  workflow branch name, the master merge, the post-master callback on what that merge
  resolved to, the tag creation at what the callback resolved to, and (unless
  \<open>keepBranch\<close>) the safe deletion. A call that succeeds made all of them; a call that
  rejects stops at the entry that threw, which is its last entry and holds the error that
  the call rejects with, and every entry before the last had resolved when the next one
  started. The log replays, so each entry is the operation of its label applied in the
  state that the entry before it left; for a call that succeeds the chain is written out:
  the hook of the options on the two names in the state \<open>rg\<close> of the decision,
  \<^verbatim>\<open>utils.Repo.merge\<close> in the state the hook left, and so on to the state the call ends in.
\<close>

theorem steps_in_order:
  assumes reach: "decided f D rp v r cfg db wb mb dc wc mc rg" and v: "v \<noteq> []"
    and both: "\<not> onlyMaster opts" "cid dc \<noteq> cid wc" "cid mc \<noteq> cid wc"
  shows "\<exists>u1 m1 x1 u2 m2 target tagged.
     replays D rp opts (log (finish f D (Some rp) (Some v) opts r)) r (final (finish f D (Some
         rp) (Some v) opts r)) \<and>
     take 7 (log (finish f D (Some rp) (Some v) opts r)) = resolutionLog f cfg v db wb mb dc wc
         mc \<and>
     prefix (drop 7 (calls (finish f D (Some rp) (Some v) opts r)))
       ([BeforeMergeCallback (gitflow_branch_develop cfg) (basePrefix f cfg @ v),
           Merge db wb, PostDevelopMergeCallback m1,
           BeforeMergeCallback (gitflow_branch_master cfg) (basePrefix f cfg @ v),
           Merge mb wb, PostMasterMergeCallback m2,
           TagCreate target (gitflow_prefix_versiontag cfg @ v) (message opts)] @
          (if keepBranch opts then []
           else [SafelyDeleteBranch (basePrefix f cfg @ v) (gitflow_branch_master cfg)])) \<and>
     prefix (butlast (drop 7 (log (finish f D (Some rp) (Some v) opts r))))
       ([(BeforeMergeCallback (gitflow_branch_develop cfg) (basePrefix f cfg @ v), GotVal u1),
           (Merge db wb, GotVal m1), (PostDevelopMergeCallback m1, GotVal x1),
           (BeforeMergeCallback (gitflow_branch_master cfg) (basePrefix f cfg @ v), GotVal u2),
           (Merge mb wb, GotVal m2), (PostMasterMergeCallback m2, GotVal target),
           (TagCreate target (gitflow_prefix_versiontag cfg @ v) (message opts), GotVal tagged)] @
          (if keepBranch opts then []
           else [(SafelyDeleteBranch (basePrefix f cfg @ v) (gitflow_branch_master cfg), Done)]))
               \<and>
     (\<forall>e. (result (finish f D (Some rp) (Some v) opts r)) = Inl e \<longrightarrow> snd
         (last (log (finish f D (Some rp) (Some v) opts r))) = Threw e) \<and>
     (\<forall>ev \<in> set (butlast (log (finish f D (Some rp) (Some v) opts r))). \<not> threw
         ev) \<and>
     ((\<exists>x. (result (finish f D (Some rp) (Some v) opts r)) = Inr x) \<longrightarrow>
        (result (finish f D (Some rp) (Some v) opts r)) = Inr x1 \<and>
        drop 7 (log (finish f D (Some rp) (Some v) opts r)) =
          ([(BeforeMergeCallback (gitflow_branch_develop cfg) (basePrefix f cfg @ v), GotVal u1),
           (Merge db wb, GotVal m1), (PostDevelopMergeCallback m1, GotVal x1),
           (BeforeMergeCallback (gitflow_branch_master cfg) (basePrefix f cfg @ v), GotVal u2),
           (Merge mb wb, GotVal m2), (PostMasterMergeCallback m2, GotVal target),
           (TagCreate target (gitflow_prefix_versiontag cfg @ v) (message opts), GotVal tagged)] @
          (if keepBranch opts then []
           else [(SafelyDeleteBranch (basePrefix f cfg @ v) (gitflow_branch_master cfg), Done)]))
               \<and>
        (\<exists>s1 s2 s3 s4 s5 s6 s7.
           orNoop (beforeMergeCallback opts) [JStr (gitflow_branch_develop cfg), JStr (basePrefix
               f cfg @ v)] rg = (Inr u1, s1) \<and>
           Repo_merge D db wb rp (processMergeMessageCallback opts) (signingCallback opts) s1 =
               (Inr m1, s2) \<and>
           InjectIntermediateCallback D (orNoop (postDevelopMergeCallback opts)) m1 s2
             = (Inr x1, s3) \<and>
           orNoop (beforeMergeCallback opts) [JStr (gitflow_branch_master cfg), JStr (basePrefix
               f cfg @ v)] s3 = (Inr u2, s4) \<and>
           Repo_merge D mb wb rp (processMergeMessageCallback opts) (signingCallback opts) s4 =
               (Inr m2, s5) \<and>
           InjectIntermediateCallback D (orNoop (postMasterMergeCallback opts)) m2 s5
             = (Inr target, s6) \<and>
           Tag_create D target (gitflow_prefix_versiontag cfg @ v) (message opts) rp s6 = (Inr
               tagged, s7) \<and>
           (if keepBranch opts then (final (finish f D (Some rp) (Some v) opts r)) = s7
            else Repo_safelyDeleteBranch D rp (basePrefix f cfg @ v) (gitflow_branch_master cfg)
                (orNoop (postCheckoutHook opts)) s7
                   = (Inr (), (final (finish f D (Some rp) (Some v) opts r))))))"
proof -
  obtain res r' t where run: "finish f D (Some rp) (Some v) opts r = (res, r', t)"
    by (cases "finish f D (Some rp) (Some v) opts r") auto
  from finish_decided[OF reach v run] obtain t2 where
    t: "t = resolutionLog f cfg v db wb mb dc wc mc @ t2" and
    rest: "afterResolution f D rp opts cfg v [db, wb, mb] [dc, wc, mc] rg = (res, r', t2)"
    by blast
  have rep: "replays D rp opts t r r'"
    using finish_replays[OF run] .
  have pre: "\<forall>ev \<in> set (resolutionLog f cfg v db wb mb dc wc mc). \<not> threw ev"
    by (simp add: resolutionLog_def threw_def)
  have cut: "take 7 t = resolutionLog f cfg v db wb mb dc wc mc" "drop 7 t = t2" "drop 7 (map fst
      t) = map fst t2"
    "t2 \<noteq> [] \<Longrightarrow> last t = last t2"
    unfolding t by (simp_all add: resolutionLog_def)
  have inner: "\<exists>u1 m1 x1 u2 m2 target tagged.
     replays D rp opts t r r' \<and>
     take 7 t = resolutionLog f cfg v db wb mb dc wc mc \<and>
     prefix (drop 7 (map fst t))
       ([BeforeMergeCallback (gitflow_branch_develop cfg) (basePrefix f cfg @ v),
           Merge db wb, PostDevelopMergeCallback m1,
           BeforeMergeCallback (gitflow_branch_master cfg) (basePrefix f cfg @ v),
           Merge mb wb, PostMasterMergeCallback m2,
           TagCreate target (gitflow_prefix_versiontag cfg @ v) (message opts)] @
          (if keepBranch opts then []
           else [SafelyDeleteBranch (basePrefix f cfg @ v) (gitflow_branch_master cfg)])) \<and>
     prefix (butlast (drop 7 t))
       ([(BeforeMergeCallback (gitflow_branch_develop cfg) (basePrefix f cfg @ v), GotVal u1),
           (Merge db wb, GotVal m1), (PostDevelopMergeCallback m1, GotVal x1),
           (BeforeMergeCallback (gitflow_branch_master cfg) (basePrefix f cfg @ v), GotVal u2),
           (Merge mb wb, GotVal m2), (PostMasterMergeCallback m2, GotVal target),
           (TagCreate target (gitflow_prefix_versiontag cfg @ v) (message opts), GotVal tagged)] @
          (if keepBranch opts then []
           else [(SafelyDeleteBranch (basePrefix f cfg @ v) (gitflow_branch_master cfg), Done)]))
               \<and>
     (\<forall>e. res = Inl e \<longrightarrow> snd (last t) = Threw e) \<and>
     (\<forall>ev \<in> set (butlast t). \<not> threw ev) \<and>
     ((\<exists>x. res = Inr x) \<longrightarrow>
        res = Inr x1 \<and>
        drop 7 t =
          ([(BeforeMergeCallback (gitflow_branch_develop cfg) (basePrefix f cfg @ v), GotVal u1),
           (Merge db wb, GotVal m1), (PostDevelopMergeCallback m1, GotVal x1),
           (BeforeMergeCallback (gitflow_branch_master cfg) (basePrefix f cfg @ v), GotVal u2),
           (Merge mb wb, GotVal m2), (PostMasterMergeCallback m2, GotVal target),
           (TagCreate target (gitflow_prefix_versiontag cfg @ v) (message opts), GotVal tagged)] @
          (if keepBranch opts then []
           else [(SafelyDeleteBranch (basePrefix f cfg @ v) (gitflow_branch_master cfg), Done)]))
               \<and>
        (\<exists>s1 s2 s3 s4 s5 s6 s7.
           orNoop (beforeMergeCallback opts) [JStr (gitflow_branch_develop cfg), JStr (basePrefix
               f cfg @ v)] rg = (Inr u1, s1) \<and>
           Repo_merge D db wb rp (processMergeMessageCallback opts) (signingCallback opts) s1 =
               (Inr m1, s2) \<and>
           InjectIntermediateCallback D (orNoop (postDevelopMergeCallback opts)) m1 s2
             = (Inr x1, s3) \<and>
           orNoop (beforeMergeCallback opts) [JStr (gitflow_branch_master cfg), JStr (basePrefix
               f cfg @ v)] s3 = (Inr u2, s4) \<and>
           Repo_merge D mb wb rp (processMergeMessageCallback opts) (signingCallback opts) s4 =
               (Inr m2, s5) \<and>
           InjectIntermediateCallback D (orNoop (postMasterMergeCallback opts)) m2 s5
             = (Inr target, s6) \<and>
           Tag_create D target (gitflow_prefix_versiontag cfg @ v) (message opts) rp s6 = (Inr
               tagged, s7) \<and>
           (if keepBranch opts then r' = s7
            else Repo_safelyDeleteBranch D rp (basePrefix f cfg @ v) (gitflow_branch_master cfg)
                (orNoop (postCheckoutHook opts)) s7
                   = (Inr (), r'))))"
  proof (cases res)
    case (Inl e)
    from steps_made[OF rest both] Inl obtain u1 m1 x1 u2 m2 target tagged where
      s: "prefix (butlast t2)
            ([(BeforeMergeCallback (gitflow_branch_develop cfg) (basePrefix f cfg @ v), GotVal
                u1),
           (Merge db wb, GotVal m1), (PostDevelopMergeCallback m1, GotVal x1),
           (BeforeMergeCallback (gitflow_branch_master cfg) (basePrefix f cfg @ v), GotVal u2),
           (Merge mb wb, GotVal m2), (PostMasterMergeCallback m2, GotVal target),
           (TagCreate target (gitflow_prefix_versiontag cfg @ v) (message opts), GotVal tagged)] @
          (if keepBranch opts then []
           else [(SafelyDeleteBranch (basePrefix f cfg @ v) (gitflow_branch_master cfg), Done)]))"
         "prefix (map fst t2)
            ([BeforeMergeCallback (gitflow_branch_develop cfg) (basePrefix f cfg @ v),
           Merge db wb, PostDevelopMergeCallback m1,
           BeforeMergeCallback (gitflow_branch_master cfg) (basePrefix f cfg @ v),
           Merge mb wb, PostMasterMergeCallback m2,
           TagCreate target (gitflow_prefix_versiontag cfg @ v) (message opts)] @
          (if keepBranch opts then []
           else [SafelyDeleteBranch (basePrefix f cfg @ v) (gitflow_branch_master cfg)]))"
         "t2 \<noteq> []" "snd (last t2) = Threw e"
         "\<forall>ev \<in> set (butlast t2). \<not> threw ev"
      by blast
    have "\<forall>ev \<in> set (butlast t). \<not> threw ev"
      using s(5) pre unfolding t by (auto simp: butlast_append dest: in_set_butlastD)
    with s rep cut Inl show ?thesis
      apply -
      apply (rule exI[where x = u1], rule exI[where x = m1], rule exI[where x = x1],
          rule exI[where x = u2], rule exI[where x = m2], rule exI[where x = target],
          rule exI[where x = tagged])
      apply simp
      done
  next
    case (Inr x)
    from afterResolution_chain[OF rest[unfolded Inr] both]
    obtain u1 m1 u2 m2 target tagged where
      full: "t2 = ([(BeforeMergeCallback (gitflow_branch_develop cfg) (basePrefix f cfg @ v),
          GotVal u1),
           (Merge db wb, GotVal m1), (PostDevelopMergeCallback m1, GotVal x),
           (BeforeMergeCallback (gitflow_branch_master cfg) (basePrefix f cfg @ v), GotVal u2),
           (Merge mb wb, GotVal m2), (PostMasterMergeCallback m2, GotVal target),
           (TagCreate target (gitflow_prefix_versiontag cfg @ v) (message opts), GotVal tagged)] @
          (if keepBranch opts then []
           else [(SafelyDeleteBranch (basePrefix f cfg @ v) (gitflow_branch_master cfg),
               Done)]))" and
      chain: "(\<exists>s1 s2 s3 s4 s5 s6 s7.
           orNoop (beforeMergeCallback opts) [JStr (gitflow_branch_develop cfg), JStr (basePrefix
               f cfg @ v)] rg = (Inr u1, s1) \<and>
           Repo_merge D db wb rp (processMergeMessageCallback opts) (signingCallback opts) s1 =
               (Inr m1, s2) \<and>
           InjectIntermediateCallback D (orNoop (postDevelopMergeCallback opts)) m1 s2
             = (Inr x, s3) \<and>
           orNoop (beforeMergeCallback opts) [JStr (gitflow_branch_master cfg), JStr (basePrefix
               f cfg @ v)] s3 = (Inr u2, s4) \<and>
           Repo_merge D mb wb rp (processMergeMessageCallback opts) (signingCallback opts) s4 =
               (Inr m2, s5) \<and>
           InjectIntermediateCallback D (orNoop (postMasterMergeCallback opts)) m2 s5
             = (Inr target, s6) \<and>
           Tag_create D target (gitflow_prefix_versiontag cfg @ v) (message opts) rp s6 = (Inr
               tagged, s7) \<and>
           (if keepBranch opts then r' = s7
            else Repo_safelyDeleteBranch D rp (basePrefix f cfg @ v) (gitflow_branch_master cfg)
                (orNoop (postCheckoutHook opts)) s7
                   = (Inr (), r')))"
      by blast
    have quiet: "\<forall>ev \<in> set t2. \<not> threw ev"
      unfolding full by (simp add: threw_def)
    have "\<forall>ev \<in> set (butlast t). \<not> threw ev"
      using quiet pre unfolding t by (auto simp: butlast_append dest: in_set_butlastD)
    moreover have "prefix (butlast t2) t2" by (rule prefixeq_butlast)
    ultimately show ?thesis
      using rep cut Inr chain full
      apply -
      apply (rule exI[where x = u1], rule exI[where x = m1], rule exI[where x = x],
          rule exI[where x = u2], rule exI[where x = m2], rule exI[where x = target],
          rule exI[where x = tagged])
      apply (simp split: if_splits)
      done
  qed
  have eqs: "log (finish f D (Some rp) (Some v) opts r) = t"
    "calls (finish f D (Some rp) (Some v) opts r) = map fst t"
    "final (finish f D (Some rp) (Some v) opts r) = r'"
    "result (finish f D (Some rp) (Some v) opts r) = res"
    using run by (simp_all add: calls_def log_def result_def final_def)
  show ?thesis unfolding eqs by (rule inner)
qed

theorem steps_in_order_witness:
  "(\<exists>u1 m1 x1 u2 m2 target tagged.
     drop 7 (log (finish Release engine (Some ()) (Some ''1.0'') passThrough midRelease)) =
       [(BeforeMergeCallback ''develop'' ''release/1.0'', GotVal u1),
        (Merge \<lparr>ref_name = ''develop'', ref_target = ''d1''\<rparr>
           \<lparr>ref_name = ''release/1.0'', ref_target = ''r1''\<rparr>, GotVal m1),
        (PostDevelopMergeCallback m1, GotVal x1),
        (BeforeMergeCallback ''master'' ''release/1.0'', GotVal u2),
        (Merge \<lparr>ref_name = ''master'', ref_target = ''m1''\<rparr>
           \<lparr>ref_name = ''release/1.0'', ref_target = ''r1''\<rparr>, GotVal m2),
        (PostMasterMergeCallback m2, GotVal target),
        (TagCreate target ''v1.0'' JUndefined, GotVal tagged),
        (SafelyDeleteBranch ''release/1.0'' ''master'', Done)]) \<and>
   (\<exists>u1 m1 x1 u2 m2 target tagged.
     drop 7 (log (finish Hotfix engine (Some ()) (Some ''1.0'') noOptions midHotfix)) =
       [(BeforeMergeCallback ''develop'' ''hotfix/1.0'', GotVal u1),
        (Merge \<lparr>ref_name = ''develop'', ref_target = ''d1''\<rparr>
           \<lparr>ref_name = ''hotfix/1.0'', ref_target = ''h1''\<rparr>, GotVal m1),
        (PostDevelopMergeCallback m1, GotVal x1),
        (BeforeMergeCallback ''master'' ''hotfix/1.0'', GotVal u2),
        (Merge \<lparr>ref_name = ''master'', ref_target = ''m1''\<rparr>
           \<lparr>ref_name = ''hotfix/1.0'', ref_target = ''h1''\<rparr>, GotVal m2),
        (PostMasterMergeCallback m2, GotVal target),
        (TagCreate target ''v1.0'' JUndefined, GotVal tagged),
        (SafelyDeleteBranch ''hotfix/1.0'' ''master'', Done)])"
proof -
  have release: "''1.0'' \<noteq> []" "\<not> onlyMaster (passThrough :: repository options)"
    "cid (plainCommit ''d1'' [''m1'']) \<noteq> cid (plainCommit ''r1'' [''d1''])"
    "cid (plainCommit ''m1'' []) \<noteq> cid (plainCommit ''r1'' [''d1''])"
    by (simp_all add: passThrough_flags plainCommit_def)
  have hotfix: "''1.0'' \<noteq> []" "\<not> onlyMaster (noOptions :: repository options)"
    "cid (plainCommit ''d1'' [''m1'']) \<noteq> cid (plainCommit ''h1'' [''m1''])"
    "cid (plainCommit ''m1'' []) \<noteq> cid (plainCommit ''h1'' [''m1''])"
    by (simp_all add: noOptions_flags plainCommit_def)
  from steps_in_order [OF midRelease_decided release]
    steps_in_order [OF midHotfix_decided hotfix]
  show ?thesis
    by (auto simp: midRelease_result midHotfix_result passThrough_flags noOptions_flags
          basePrefix_def)
qed


section \<open>Keeping the branch\<close>

text \<open>
  C9. A finish call with \<open>keepBranch\<close> set makes no call to the safe deletion, no
  checkout and no call to \<open>postCheckoutHook\<close>, however it ends, and it is the same
  call whatever \<open>postCheckoutHook\<close> is.
\<close>

theorem keepBranch_no_cleanup:
  assumes keep: "keepBranch opts"
  shows "(\<forall>c \<in> set (calls (finish f D repo ver opts r)). \<not> isCleanup c) \<and>
         (\<forall>h. finish f D repo ver (opts\<lparr>postCheckoutHook := h\<rparr>) r = finish f D repo ver opts r)"
proof
  show "\<forall>h. finish f D repo ver (opts\<lparr>postCheckoutHook := h\<rparr>) r = finish f D repo ver opts r"
    using keep by (simp add: finish_stages andThen_def afterResolution_keepBranch
          split: option.splits prod.splits sum.splits)
next
  obtain res r' t where run: "finish f D repo ver opts r = (res, r', t)"
    by (cases "finish f D repo ver opts r") auto
  have "\<forall>c \<in> set (map fst t). \<not> isCleanup c"
  proof (cases "\<exists>rp v. repo = Some rp \<and> truthy ver = Some v")
    case False
    with run have "t = []"
      by (auto simp: finish_stages reject_iff split: option.splits)
    then show ?thesis by simp
  next
    case True
    then obtain rp v where rp: "repo = Some rp" "truthy ver = Some v" by blast
    with run have "andThen (resolution f D rp v) (\<lambda>(config, bs, cs).
            afterResolution f D rp opts config v bs cs) r = (res, r', t)"
      by (simp add: finish_stages)
    then consider
        (failed) e where "resolution f D rp v r = (Inl e, r', t)"
      | (resolved) cfg bs cs r1 t1 t2 where
          "resolution f D rp v r = (Inr (cfg, bs, cs), r1, t1)"
          "afterResolution f D rp opts cfg v bs cs r1 = (res, r', t2)" "t = t1 @ t2"
      by (auto simp: andThen_iff)
    then show ?thesis
    proof cases
      case failed
      from resolution_calls[OF failed] show ?thesis
        by (auto simp: list_all_iff isResolution_def isCleanup_def split: call.splits)
    next
      case resolved
      from resolution_calls[OF resolved(1)] have "\<forall>c \<in> set (map fst t1). \<not> isCleanup c"
        by (auto simp: list_all_iff isResolution_def isCleanup_def split: call.splits)
      moreover from resolved(2) keep have "\<forall>c \<in> set (map fst t2). \<not> isCleanup c"
        by (auto simp: stage_defs run_iffs isCleanup_def split: if_splits)
      ultimately show ?thesis using resolved(3) by auto
    qed
  qed
  with run show "\<forall>c \<in> set (calls (finish f D repo ver opts r)). \<not> isCleanup c"
    by (simp add: calls_def log_def)
qed


theorem keepBranch_no_cleanup_witness:
  "keepBranch (passThrough\<lparr>keepBranch := True\<rparr> :: repository options) \<and>
   filter isCleanup
     (calls (finish Release engine (Some ()) (Some ''1.0'')
        (passThrough\<lparr>keepBranch := True\<rparr>) midRelease)) = [] \<and>
   finish Release engine (Some ()) (Some ''1.0'')
     (passThrough\<lparr>keepBranch := True, postCheckoutHook := Some (throwing ''unused'')\<rparr>)
     midRelease =
   finish Release engine (Some ()) (Some ''1.0'') (passThrough\<lparr>keepBranch := True\<rparr>)
     midRelease"
  using keepBranch_no_cleanup [of "passThrough\<lparr>keepBranch := True\<rparr>" Release engine
      "Some ()" "Some ''1.0''" midRelease]
  by (simp add: filter_empty_conv)


section \<open>What finish resolves to\<close>

text \<open>
  C2. A finish call that succeeds resolves to the outcome of the develop step. When the
  develop merge is skipped the value is \<open>undefined\<close>, no post-develop callback call is
  in the log, and the call is the same whatever \<open>postDevelopMergeCallback\<close> is. When it
  is performed, \<open>beforeMergeCallback\<close> ran on the develop and the workflow branch name in
  the state \<open>rg\<close> of the decision, \<^verbatim>\<open>utils.Repo.merge\<close> merged the workflow branch into
  develop in the state the hook left, and the value is what
  \<^verbatim>\<open>utils.InjectIntermediateCallback\<close> of the \<open>postDevelopMergeCallback\<close> of the options
  resolved to on the result of that merge. It is settled by the tenth call, before any tag
  is created and with the develop merge as the only merge so far. The log replays.
\<close>

theorem finish_result:
  assumes ok: "result (finish f D repo ver opts r) = Inr x"
  shows "\<exists>rp v cfg db wb mb dc wc mc rg.
     repo = Some rp \<and> ver = Some v \<and>
     decided f D rp v r cfg db wb mb dc wc mc rg \<and>
     replays D rp opts (log (finish f D repo ver opts r)) r (final (finish f D repo ver opts r))
         \<and>
     take 7 (log (finish f D repo ver opts r)) = resolutionLog f cfg v db wb mb dc wc mc \<and>
     (if onlyMaster opts \<or> cid dc = cid wc then
        x = JUndefined \<and>
        filter isPostDevelopMerge (calls (finish f D repo ver opts r)) = [] \<and>
        (\<forall>h. finish f D repo ver (opts\<lparr>postDevelopMergeCallback := h\<rparr>) r =
              finish f D repo ver opts r)
      else
        (\<exists>u m s1 s2 s3.
           orNoop (beforeMergeCallback opts) [JStr (gitflow_branch_develop cfg), JStr (basePrefix
               f cfg @ v)] rg = (Inr u, s1) \<and>
           Repo_merge D db wb rp (processMergeMessageCallback opts) (signingCallback opts) s1 =
               (Inr m, s2) \<and>
           InjectIntermediateCallback D (orNoop (postDevelopMergeCallback opts)) m s2
             = (Inr x, s3) \<and>
           take 3 (drop 7 (log (finish f D repo ver opts r))) =
             [(BeforeMergeCallback (gitflow_branch_develop cfg) (basePrefix f cfg @ v), GotVal u),
              (Merge db wb, GotVal m),
              (PostDevelopMergeCallback m, GotVal x)]) \<and>
        filter isTagCreate (take 10 (calls (finish f D repo ver opts r))) = [] \<and>
        filter isMerge (take 10 (calls (finish f D repo ver opts r))) = [Merge db wb])"
proof -
  obtain res r' t where run: "finish f D repo ver opts r = (res, r', t)"
    by (cases "finish f D repo ver opts r") auto
  with ok have run: "finish f D repo ver opts r = (Inr x, r', t)"
    by (simp add: result_def)
  from finish_succeeds_decided[OF run] obtain rp v cfg db wb mb dc wc mc rg t2 where
    rp: "repo = Some rp" and ver: "ver = Some v" and v: "v \<noteq> []" and
    dec: "decided f D rp v r cfg db wb mb dc wc mc rg" and
    t: "t = resolutionLog f cfg v db wb mb dc wc mc @ t2" and
    rest: "afterResolution f D rp opts cfg v [db, wb, mb] [dc, wc, mc] rg = (Inr x, r', t2)"
    by blast
  have rep: "replays D rp opts t r r'"
    using finish_replays[OF run[unfolded rp]] .
  have len: "length (resolutionLog f cfg v db wb mb dc wc mc) = 7"
    by (simp add: resolutionLog_def)
  have pre: "take 7 t = resolutionLog f cfg v db wb mb dc wc mc" "drop 7 t = t2"
    "take 10 (map fst t) = map fst (resolutionLog f cfg v db wb mb dc wc mc) @ take 3 (map fst
        t2)"
    unfolding t using len by simp_all
  have quiet: "filter isPostDevelopMerge (map fst (resolutionLog f cfg v db wb mb dc wc mc)) = []"
    "filter isTagCreate (map fst (resolutionLog f cfg v db wb mb dc wc mc)) = []"
    "filter isMerge (map fst (resolutionLog f cfg v db wb mb dc wc mc)) = []"
    by (simp_all add: resolutionLog_def isPostDevelopMerge_def isTagCreate_def isMerge_def)
  have branch: "(if onlyMaster opts \<or> cid dc = cid wc then
        x = JUndefined \<and>
        filter isPostDevelopMerge (map fst t) = [] \<and>
        (\<forall>h. finish f D repo ver (opts\<lparr>postDevelopMergeCallback := h\<rparr>) r =
              finish f D repo ver opts r)
      else
        (\<exists>u m s1 s2 s3.
           orNoop (beforeMergeCallback opts) [JStr (gitflow_branch_develop cfg), JStr (basePrefix
               f cfg @ v)] rg = (Inr u, s1) \<and>
           Repo_merge D db wb rp (processMergeMessageCallback opts) (signingCallback opts) s1 =
               (Inr m, s2) \<and>
           InjectIntermediateCallback D (orNoop (postDevelopMergeCallback opts)) m s2
             = (Inr x, s3) \<and>
           take 3 (drop 7 t) =
             [(BeforeMergeCallback (gitflow_branch_develop cfg) (basePrefix f cfg @ v), GotVal u),
              (Merge db wb, GotVal m),
              (PostDevelopMergeCallback m, GotVal x)]) \<and>
        filter isTagCreate (take 10 (map fst t)) = [] \<and>
        filter isMerge (take 10 (map fst t)) = [Merge db wb])"
  proof (cases "onlyMaster opts \<or> cid dc = cid wc")
    case True
    from rest True have "x = JUndefined \<and> filter isPostDevelopMerge (map fst t2) = []"
      by (auto simp: stage_defs run_iffs isPostDevelopMerge_def split: if_splits)
    moreover have "finish f D repo ver (opts\<lparr>postDevelopMergeCallback := h\<rparr>) r =
              finish f D repo ver opts r" for h
      using rp ver v dec
      by (simp add: finish_stages truthy_def decided_resolution andThen_def
            afterResolution_skips_develop[OF True])
    ultimately show ?thesis using True quiet unfolding t by simp
  next
    case False
    from afterResolution_ok[OF rest] obtain z sD sM tD tM tC where
      dev: "developStep D rp opts (gitflow_branch_develop cfg) (basePrefix f cfg @ v) db wb dc wc
          rg = (Inr x, sD, tD)" and
      t2: "t2 = tD @ tM @ tC"
      by blast
    from developStep_ok[OF dev] False obtain u m s1 s2 where
      ops: "orNoop (beforeMergeCallback opts) [JStr (gitflow_branch_develop cfg), JStr
          (basePrefix f cfg @ v)] rg = (Inr u, s1)"
        "Repo_merge D db wb rp (processMergeMessageCallback opts) (signingCallback opts) s1 =
            (Inr m, s2)"
        "InjectIntermediateCallback D (orNoop (postDevelopMergeCallback opts)) m s2
           = (Inr x, sD)" and
      tD: "tD = [(BeforeMergeCallback (gitflow_branch_develop cfg) (basePrefix f cfg @ v), GotVal
          u), (Merge db wb, GotVal m),
            (PostDevelopMergeCallback m, GotVal x)]"
      by auto
    have t3: "take 3 t2 = tD" "take 3 (map fst t2) = map fst tD"
      unfolding t2 tD by simp_all
    have "\<exists>u m s1 s2 s3.
           orNoop (beforeMergeCallback opts) [JStr (gitflow_branch_develop cfg), JStr (basePrefix
               f cfg @ v)] rg = (Inr u, s1) \<and>
           Repo_merge D db wb rp (processMergeMessageCallback opts) (signingCallback opts) s1 =
               (Inr m, s2) \<and>
           InjectIntermediateCallback D (orNoop (postDevelopMergeCallback opts)) m s2
             = (Inr x, s3) \<and>
           take 3 (drop 7 t) =
             [(BeforeMergeCallback (gitflow_branch_develop cfg) (basePrefix f cfg @ v), GotVal u),
              (Merge db wb, GotVal m),
              (PostDevelopMergeCallback m, GotVal x)]"
      using ops tD t3(1) pre(2) by auto
    moreover have "filter isTagCreate (take 10 (map fst t)) = []"
      "filter isMerge (take 10 (map fst t)) = [Merge db wb]"
      unfolding pre(3) t3(2) tD using quiet by (simp_all add: isTagCreate_def isMerge_def)
    ultimately show ?thesis using False by simp
  qed
  have body: "repo = Some rp \<and> ver = Some v \<and>
     decided f D rp v r cfg db wb mb dc wc mc rg \<and>
     replays D rp opts t r r' \<and>
     take 7 t = resolutionLog f cfg v db wb mb dc wc mc \<and>
     (if onlyMaster opts \<or> cid dc = cid wc then
        x = JUndefined \<and>
        filter isPostDevelopMerge (map fst t) = [] \<and>
        (\<forall>h. finish f D repo ver (opts\<lparr>postDevelopMergeCallback := h\<rparr>) r =
              finish f D repo ver opts r)
      else
        (\<exists>u m s1 s2 s3.
           orNoop (beforeMergeCallback opts) [JStr (gitflow_branch_develop cfg), JStr (basePrefix
               f cfg @ v)] rg = (Inr u, s1) \<and>
           Repo_merge D db wb rp (processMergeMessageCallback opts) (signingCallback opts) s1 =
               (Inr m, s2) \<and>
           InjectIntermediateCallback D (orNoop (postDevelopMergeCallback opts)) m s2
             = (Inr x, s3) \<and>
           take 3 (drop 7 t) =
             [(BeforeMergeCallback (gitflow_branch_develop cfg) (basePrefix f cfg @ v), GotVal u),
              (Merge db wb, GotVal m),
              (PostDevelopMergeCallback m, GotVal x)]) \<and>
        filter isTagCreate (take 10 (map fst t)) = [] \<and>
        filter isMerge (take 10 (map fst t)) = [Merge db wb])"
    by (insert rp ver dec rep pre(1) branch, (intro conjI; assumption))
  have inner: "\<exists>rp v cfg db wb mb dc wc mc rg.
     repo = Some rp \<and> ver = Some v \<and>
     decided f D rp v r cfg db wb mb dc wc mc rg \<and>
     replays D rp opts t r r' \<and>
     take 7 t = resolutionLog f cfg v db wb mb dc wc mc \<and>
     (if onlyMaster opts \<or> cid dc = cid wc then
        x = JUndefined \<and>
        filter isPostDevelopMerge (map fst t) = [] \<and>
        (\<forall>h. finish f D repo ver (opts\<lparr>postDevelopMergeCallback := h\<rparr>) r =
              finish f D repo ver opts r)
      else
        (\<exists>u m s1 s2 s3.
           orNoop (beforeMergeCallback opts) [JStr (gitflow_branch_develop cfg), JStr (basePrefix
               f cfg @ v)] rg = (Inr u, s1) \<and>
           Repo_merge D db wb rp (processMergeMessageCallback opts) (signingCallback opts) s1 =
               (Inr m, s2) \<and>
           InjectIntermediateCallback D (orNoop (postDevelopMergeCallback opts)) m s2
             = (Inr x, s3) \<and>
           take 3 (drop 7 t) =
             [(BeforeMergeCallback (gitflow_branch_develop cfg) (basePrefix f cfg @ v), GotVal u),
              (Merge db wb, GotVal m),
              (PostDevelopMergeCallback m, GotVal x)]) \<and>
        filter isTagCreate (take 10 (map fst t)) = [] \<and>
        filter isMerge (take 10 (map fst t)) = [Merge db wb])"
    by ((rule exI)+, rule body)
  have eqs: "log (finish f D repo ver opts r) = t"
    "calls (finish f D repo ver opts r) = map fst t"
    "final (finish f D repo ver opts r) = r'"
    using run by (simp_all add: calls_def log_def final_def)
  show ?thesis unfolding eqs by (rule inner)
qed

theorem finish_result_witness:
  "result (finish Release engine (Some ()) (Some ''1.0'') passThrough midRelease)
     = Inr (JOid ''d1+r1'') \<and>
   (\<exists>u m. take 3 (drop 7 (log (finish Release engine (Some ()) (Some ''1.0'') passThrough
                                 midRelease))) =
      [(BeforeMergeCallback ''develop'' ''release/1.0'', GotVal u),
       (Merge \<lparr>ref_name = ''develop'', ref_target = ''d1''\<rparr>
          \<lparr>ref_name = ''release/1.0'', ref_target = ''r1''\<rparr>, GotVal m),
       (PostDevelopMergeCallback m, GotVal (JOid ''d1+r1''))]) \<and>
   result (finish Hotfix engine (Some ()) (Some ''1.0'') noOptions midHotfix)
     = Inr (JOid ''d1+h1'') \<and>
   (\<exists>u m. take 3 (drop 7 (log (finish Hotfix engine (Some ()) (Some ''1.0'') noOptions
                                 midHotfix))) =
      [(BeforeMergeCallback ''develop'' ''hotfix/1.0'', GotVal u),
       (Merge \<lparr>ref_name = ''develop'', ref_target = ''d1''\<rparr>
          \<lparr>ref_name = ''hotfix/1.0'', ref_target = ''h1''\<rparr>, GotVal m),
       (PostDevelopMergeCallback m, GotVal (JOid ''d1+h1''))])"
  using finish_result [OF midRelease_result] finish_result [OF midHotfix_result]
  by (auto simp: midRelease_log midRelease_result midHotfix_log midHotfix_result
        resolutionLog_def passThrough_flags noOptions_flags plainCommit_def basePrefix_def
        split: if_splits)

section \<open>The tag\<close>

text \<open>
  C3. A finish call that succeeds creates exactly one tag, named by the version-tag
  prefix and the version, with the message of the options: the log holds one tag creation
  and it replays, \<^verbatim>\<open>utils.Tag.create\<close> being applied once, in the state \<open>sT\<close> that the
  master step reached, and leaving the state \<open>sM\<close> in which the cleanup starts. When the
  master merge is skipped the tag is created at the commit that master resolved to, in the
  state \<open>sD\<close> that the develop step left, and the master step makes no merge. Otherwise
  \<open>beforeMergeCallback\<close> runs on the master and the workflow branch name in \<open>sD\<close>,
  \<^verbatim>\<open>utils.Repo.merge\<close> merges the workflow branch into master, and the tag is created at
  what \<^verbatim>\<open>utils.InjectIntermediateCallback\<close> of the \<open>postMasterMergeCallback\<close> of the
  options resolved to on the result of that merge.
\<close>

theorem one_tag:
  assumes ok: "result (finish f D repo ver opts r) = Inr x"
  shows "\<exists>rp v cfg db wb mb dc wc mc rg target tagged sD sT sM.
     repo = Some rp \<and> ver = Some v \<and>
     decided f D rp v r cfg db wb mb dc wc mc rg \<and>
     replays D rp opts (log (finish f D repo ver opts r)) r (final (finish f D repo ver opts r))
         \<and>
     take 7 (log (finish f D repo ver opts r)) = resolutionLog f cfg v db wb mb dc wc mc \<and>
     filter isTagCreate (calls (finish f D repo ver opts r)) = [TagCreate target
         (gitflow_prefix_versiontag cfg @ v) (message opts)] \<and>
     Tag_create D target (gitflow_prefix_versiontag cfg @ v) (message opts) rp sT = (Inr tagged,
         sM) \<and>
     (if onlyMaster opts \<or> cid dc = cid wc then sD = rg
      else
        (\<exists>u m s1 s2.
           orNoop (beforeMergeCallback opts) [JStr (gitflow_branch_develop cfg), JStr (basePrefix
               f cfg @ v)] rg = (Inr u, s1) \<and>
           Repo_merge D db wb rp (processMergeMessageCallback opts) (signingCallback opts) s1 =
               (Inr m, s2) \<and>
           InjectIntermediateCallback D (orNoop (postDevelopMergeCallback opts)) m s2
             = (Inr x, sD))) \<and>
     (if cid mc = cid wc then
        target = JOid (cid mc) \<and> sT = sD \<and>
        filter isMerge (drop (if onlyMaster opts \<or> cid dc = cid wc then 7 else 10) (calls
            (finish f D repo ver opts r))) = []
      else
        (\<exists>u m s1 s2.
           orNoop (beforeMergeCallback opts) [JStr (gitflow_branch_master cfg), JStr (basePrefix
               f cfg @ v)] sD = (Inr u, s1) \<and>
           Repo_merge D mb wb rp (processMergeMessageCallback opts) (signingCallback opts) s1 =
               (Inr m, s2) \<and>
           InjectIntermediateCallback D (orNoop (postMasterMergeCallback opts)) m s2
             = (Inr target, sT) \<and>
           take 4 (drop (if onlyMaster opts \<or> cid dc = cid wc then 7 else 10) (log (finish f
               D repo ver opts r))) =
             [(BeforeMergeCallback (gitflow_branch_master cfg) (basePrefix f cfg @ v), GotVal u),
              (Merge mb wb, GotVal m),
              (PostMasterMergeCallback m, GotVal target),
              (TagCreate target (gitflow_prefix_versiontag cfg @ v) (message opts), GotVal
                  tagged)])) \<and>
     (if keepBranch opts then (final (finish f D repo ver opts r)) = sM
      else Repo_safelyDeleteBranch D rp (basePrefix f cfg @ v) (gitflow_branch_master cfg)
          (orNoop (postCheckoutHook opts)) sM
             = (Inr (), (final (finish f D repo ver opts r))))"
proof -
  obtain res r' t where run: "finish f D repo ver opts r = (res, r', t)"
    by (cases "finish f D repo ver opts r") auto
  with ok have run: "finish f D repo ver opts r = (Inr x, r', t)"
    by (simp add: result_def)
  from finish_succeeds_decided[OF run] obtain rp v cfg db wb mb dc wc mc rg t2 where
    rp: "repo = Some rp" and ver: "ver = Some v" and
    dec: "decided f D rp v r cfg db wb mb dc wc mc rg" and
    t: "t = resolutionLog f cfg v db wb mb dc wc mc @ t2" and
    rest: "afterResolution f D rp opts cfg v [db, wb, mb] [dc, wc, mc] rg = (Inr x, r', t2)"
    by blast
  have rep: "replays D rp opts t r r'"
    using finish_replays[OF run[unfolded rp]] .
  have pre: "take 7 t = resolutionLog f cfg v db wb mb dc wc mc"
    unfolding t by (simp add: resolutionLog_def)
  from afterResolution_ok[OF rest] obtain z sD sM tD tM tC where
    dev: "developStep D rp opts (gitflow_branch_develop cfg) (basePrefix f cfg @ v) db wb dc wc
        rg = (Inr x, sD, tD)" and
    mas: "masterStep D rp opts (gitflow_branch_master cfg) (basePrefix f cfg @ v) mb wb mc wc
        (gitflow_prefix_versiontag cfg @ v) sD = (Inr z, sM, tM)" and
    cln: "cleanupStep D rp opts (basePrefix f cfg @ v) (gitflow_branch_master cfg) sM = (Inr (),
        r', tC)" and
    t2: "t2 = tD @ tM @ tC"
    by blast
  have "\<exists>target sT.
     filter isTagCreate (map fst t) = [TagCreate target (gitflow_prefix_versiontag cfg @ v)
         (message opts)] \<and>
     Tag_create D target (gitflow_prefix_versiontag cfg @ v) (message opts) rp sT = (Inr z, sM)
         \<and>
     (if onlyMaster opts \<or> cid dc = cid wc then sD = rg
      else
        (\<exists>u m s1 s2.
           orNoop (beforeMergeCallback opts) [JStr (gitflow_branch_develop cfg), JStr (basePrefix
               f cfg @ v)] rg = (Inr u, s1) \<and>
           Repo_merge D db wb rp (processMergeMessageCallback opts) (signingCallback opts) s1 =
               (Inr m, s2) \<and>
           InjectIntermediateCallback D (orNoop (postDevelopMergeCallback opts)) m s2
             = (Inr x, sD))) \<and>
     (if cid mc = cid wc then
        target = JOid (cid mc) \<and> sT = sD \<and>
        filter isMerge (drop (if onlyMaster opts \<or> cid dc = cid wc then 7 else 10) (map fst
            t)) = []
      else
        (\<exists>u m s1 s2.
           orNoop (beforeMergeCallback opts) [JStr (gitflow_branch_master cfg), JStr (basePrefix
               f cfg @ v)] sD = (Inr u, s1) \<and>
           Repo_merge D mb wb rp (processMergeMessageCallback opts) (signingCallback opts) s1 =
               (Inr m, s2) \<and>
           InjectIntermediateCallback D (orNoop (postMasterMergeCallback opts)) m s2
             = (Inr target, sT) \<and>
           take 4 (drop (if onlyMaster opts \<or> cid dc = cid wc then 7 else 10) t) =
             [(BeforeMergeCallback (gitflow_branch_master cfg) (basePrefix f cfg @ v), GotVal u),
              (Merge mb wb, GotVal m),
              (PostMasterMergeCallback m, GotVal target),
              (TagCreate target (gitflow_prefix_versiontag cfg @ v) (message opts), GotVal z)]))
                  \<and>
     (if keepBranch opts then r' = sM
      else Repo_safelyDeleteBranch D rp (basePrefix f cfg @ v) (gitflow_branch_master cfg)
          (orNoop (postCheckoutHook opts)) sM
             = (Inr (), r'))"
  proof (cases "cid mc = cid wc")
    case True
    from developStep_ok[OF dev] masterStep_ok[OF mas] cleanupStep_ok[OF cln] True
    show ?thesis
      unfolding t t2
      apply -
      apply (rule exI[where x = "JOid (cid mc)"], rule exI[where x = sD])
      apply (auto simp: isTagCreate_def isMerge_def resolutionLog_def split: if_splits)
      done
  next
    case False
    from masterStep_ok[OF mas] False obtain u m target s1 s2 s3 where
      ops: "orNoop (beforeMergeCallback opts) [JStr (gitflow_branch_master cfg), JStr (basePrefix
          f cfg @ v)] sD = (Inr u, s1)"
        "Repo_merge D mb wb rp (processMergeMessageCallback opts) (signingCallback opts) s1 =
            (Inr m, s2)"
        "InjectIntermediateCallback D (orNoop (postMasterMergeCallback opts)) m s2
           = (Inr target, s3)"
        "Tag_create D target (gitflow_prefix_versiontag cfg @ v) (message opts) rp s3 = (Inr z,
            sM)" and
      tM: "tM = [(BeforeMergeCallback (gitflow_branch_master cfg) (basePrefix f cfg @ v), GotVal
          u), (Merge mb wb, GotVal m),
            (PostMasterMergeCallback m, GotVal target),
            (TagCreate target (gitflow_prefix_versiontag cfg @ v) (message opts), GotVal z)]"
      by auto
    from developStep_ok[OF dev] cleanupStep_ok[OF cln] False ops
    show ?thesis
      unfolding t t2 tM
      apply -
      apply (rule exI[where x = target], rule exI[where x = s3])
      apply (auto simp: isTagCreate_def isMerge_def resolutionLog_def split: if_splits)
      done
  qed
  then obtain target sT where rst:
    "filter isTagCreate (map fst t) = [TagCreate target (gitflow_prefix_versiontag cfg @ v)
        (message opts)] \<and>
     Tag_create D target (gitflow_prefix_versiontag cfg @ v) (message opts) rp sT = (Inr z, sM)
         \<and>
     (if onlyMaster opts \<or> cid dc = cid wc then sD = rg
      else
        (\<exists>u m s1 s2.
           orNoop (beforeMergeCallback opts) [JStr (gitflow_branch_develop cfg), JStr (basePrefix
               f cfg @ v)] rg = (Inr u, s1) \<and>
           Repo_merge D db wb rp (processMergeMessageCallback opts) (signingCallback opts) s1 =
               (Inr m, s2) \<and>
           InjectIntermediateCallback D (orNoop (postDevelopMergeCallback opts)) m s2
             = (Inr x, sD))) \<and>
     (if cid mc = cid wc then
        target = JOid (cid mc) \<and> sT = sD \<and>
        filter isMerge (drop (if onlyMaster opts \<or> cid dc = cid wc then 7 else 10) (map fst
            t)) = []
      else
        (\<exists>u m s1 s2.
           orNoop (beforeMergeCallback opts) [JStr (gitflow_branch_master cfg), JStr (basePrefix
               f cfg @ v)] sD = (Inr u, s1) \<and>
           Repo_merge D mb wb rp (processMergeMessageCallback opts) (signingCallback opts) s1 =
               (Inr m, s2) \<and>
           InjectIntermediateCallback D (orNoop (postMasterMergeCallback opts)) m s2
             = (Inr target, sT) \<and>
           take 4 (drop (if onlyMaster opts \<or> cid dc = cid wc then 7 else 10) t) =
             [(BeforeMergeCallback (gitflow_branch_master cfg) (basePrefix f cfg @ v), GotVal u),
              (Merge mb wb, GotVal m),
              (PostMasterMergeCallback m, GotVal target),
              (TagCreate target (gitflow_prefix_versiontag cfg @ v) (message opts), GotVal z)]))
                  \<and>
     (if keepBranch opts then r' = sM
      else Repo_safelyDeleteBranch D rp (basePrefix f cfg @ v) (gitflow_branch_master cfg)
          (orNoop (postCheckoutHook opts)) sM
             = (Inr (), r'))"
    by blast
  have body: "repo = Some rp \<and> ver = Some v \<and>
     decided f D rp v r cfg db wb mb dc wc mc rg \<and>
     replays D rp opts t r r' \<and>
     take 7 t = resolutionLog f cfg v db wb mb dc wc mc \<and>
     filter isTagCreate (map fst t) = [TagCreate target (gitflow_prefix_versiontag cfg @ v)
         (message opts)] \<and>
     Tag_create D target (gitflow_prefix_versiontag cfg @ v) (message opts) rp sT = (Inr z, sM)
         \<and>
     (if onlyMaster opts \<or> cid dc = cid wc then sD = rg
      else
        (\<exists>u m s1 s2.
           orNoop (beforeMergeCallback opts) [JStr (gitflow_branch_develop cfg), JStr (basePrefix
               f cfg @ v)] rg = (Inr u, s1) \<and>
           Repo_merge D db wb rp (processMergeMessageCallback opts) (signingCallback opts) s1 =
               (Inr m, s2) \<and>
           InjectIntermediateCallback D (orNoop (postDevelopMergeCallback opts)) m s2
             = (Inr x, sD))) \<and>
     (if cid mc = cid wc then
        target = JOid (cid mc) \<and> sT = sD \<and>
        filter isMerge (drop (if onlyMaster opts \<or> cid dc = cid wc then 7 else 10) (map fst
            t)) = []
      else
        (\<exists>u m s1 s2.
           orNoop (beforeMergeCallback opts) [JStr (gitflow_branch_master cfg), JStr (basePrefix
               f cfg @ v)] sD = (Inr u, s1) \<and>
           Repo_merge D mb wb rp (processMergeMessageCallback opts) (signingCallback opts) s1 =
               (Inr m, s2) \<and>
           InjectIntermediateCallback D (orNoop (postMasterMergeCallback opts)) m s2
             = (Inr target, sT) \<and>
           take 4 (drop (if onlyMaster opts \<or> cid dc = cid wc then 7 else 10) t) =
             [(BeforeMergeCallback (gitflow_branch_master cfg) (basePrefix f cfg @ v), GotVal u),
              (Merge mb wb, GotVal m),
              (PostMasterMergeCallback m, GotVal target),
              (TagCreate target (gitflow_prefix_versiontag cfg @ v) (message opts), GotVal z)]))
                  \<and>
     (if keepBranch opts then r' = sM
      else Repo_safelyDeleteBranch D rp (basePrefix f cfg @ v) (gitflow_branch_master cfg)
          (orNoop (postCheckoutHook opts)) sM
             = (Inr (), r'))"
    by (insert rp ver dec rep pre rst, elim conjE, (intro conjI; assumption))
  have inner: "\<exists>rp v cfg db wb mb dc wc mc rg target tagged sD sT sM.
     repo = Some rp \<and> ver = Some v \<and>
     decided f D rp v r cfg db wb mb dc wc mc rg \<and>
     replays D rp opts t r r' \<and>
     take 7 t = resolutionLog f cfg v db wb mb dc wc mc \<and>
     filter isTagCreate (map fst t) = [TagCreate target (gitflow_prefix_versiontag cfg @ v)
         (message opts)] \<and>
     Tag_create D target (gitflow_prefix_versiontag cfg @ v) (message opts) rp sT = (Inr tagged,
         sM) \<and>
     (if onlyMaster opts \<or> cid dc = cid wc then sD = rg
      else
        (\<exists>u m s1 s2.
           orNoop (beforeMergeCallback opts) [JStr (gitflow_branch_develop cfg), JStr (basePrefix
               f cfg @ v)] rg = (Inr u, s1) \<and>
           Repo_merge D db wb rp (processMergeMessageCallback opts) (signingCallback opts) s1 =
               (Inr m, s2) \<and>
           InjectIntermediateCallback D (orNoop (postDevelopMergeCallback opts)) m s2
             = (Inr x, sD))) \<and>
     (if cid mc = cid wc then
        target = JOid (cid mc) \<and> sT = sD \<and>
        filter isMerge (drop (if onlyMaster opts \<or> cid dc = cid wc then 7 else 10) (map fst
            t)) = []
      else
        (\<exists>u m s1 s2.
           orNoop (beforeMergeCallback opts) [JStr (gitflow_branch_master cfg), JStr (basePrefix
               f cfg @ v)] sD = (Inr u, s1) \<and>
           Repo_merge D mb wb rp (processMergeMessageCallback opts) (signingCallback opts) s1 =
               (Inr m, s2) \<and>
           InjectIntermediateCallback D (orNoop (postMasterMergeCallback opts)) m s2
             = (Inr target, sT) \<and>
           take 4 (drop (if onlyMaster opts \<or> cid dc = cid wc then 7 else 10) t) =
             [(BeforeMergeCallback (gitflow_branch_master cfg) (basePrefix f cfg @ v), GotVal u),
              (Merge mb wb, GotVal m),
              (PostMasterMergeCallback m, GotVal target),
              (TagCreate target (gitflow_prefix_versiontag cfg @ v) (message opts), GotVal
                  tagged)])) \<and>
     (if keepBranch opts then r' = sM
      else Repo_safelyDeleteBranch D rp (basePrefix f cfg @ v) (gitflow_branch_master cfg)
          (orNoop (postCheckoutHook opts)) sM
             = (Inr (), r'))"
    by ((rule exI)+, rule body)
  have eqs: "log (finish f D repo ver opts r) = t"
    "calls (finish f D repo ver opts r) = map fst t"
    "final (finish f D repo ver opts r) = r'"
    using run by (simp_all add: calls_def log_def final_def)
  show ?thesis unfolding eqs by (rule inner)
qed

theorem one_tag_witness:
  "result (finish Release engine (Some ()) (Some ''1.0'') passThrough midRelease)
     = Inr (JOid ''d1+r1'') \<and>
   filter isTagCreate
     (calls (finish Release engine (Some ()) (Some ''1.0'') passThrough midRelease)) =
     [TagCreate (JOid ''m1+r1'') ''v1.0'' JUndefined] \<and>
   tags (final (finish Release engine (Some ()) (Some ''1.0'') passThrough midRelease)) =
     [(''v1.0'', ''m1+r1'', JUndefined)] \<and>
   result (finish Hotfix engine (Some ()) (Some ''1.0'') noOptions midHotfix)
     = Inr (JOid ''d1+h1'') \<and>
   filter isTagCreate
     (calls (finish Hotfix engine (Some ()) (Some ''1.0'') noOptions midHotfix)) =
     [TagCreate (JOid ''m1+h1'') ''v1.0'' JUndefined] \<and>
   tags (final (finish Hotfix engine (Some ()) (Some ''1.0'') noOptions midHotfix)) =
     [(''v1.0'', ''m1+h1'', JUndefined)]"
  using one_tag [OF midRelease_result] one_tag [OF midHotfix_result]
  by (simp add: midRelease_log midRelease_result midRelease_tags midHotfix_log
        midHotfix_result midHotfix_final resolutionLog_def calls_def isTagCreate_def)


section \<open>Where start branches from\<close>





section \<open>A hook that fails in start\<close>




section \<open>Hooks that are left out\<close>

text \<open>
  C8, as amended. \<open>beforeMergeCallback\<close>, \<open>postDevelopMergeCallback\<close>,
  \<open>postMasterMergeCallback\<close> and \<open>postCheckoutHook\<close> default to a no-op: a finish call
  that leaves them out is the call that passes a no-op for each. \<open>processMergeMessageCallback\<close>
  and \<open>signingCallback\<close> have no default: every merge is called with the two as they were
  given, absent when they were left out.
\<close>

theorem hook_defaults:
  "finish f D repo ver
     (opts\<lparr>beforeMergeCallback := None, postDevelopMergeCallback := None,
           postMasterMergeCallback := None, postCheckoutHook := None\<rparr>) =
   finish f D repo ver
     (opts\<lparr>beforeMergeCallback := Some noop, postDevelopMergeCallback := Some noop,
           postMasterMergeCallback := Some noop, postCheckoutHook := Some noop\<rparr>) \<and>
   finish f D repo ver opts =
   finish f
     (D\<lparr>Repo_merge := (\<lambda>toBranch fromBranch h given1 given2.
          Repo_merge D toBranch fromBranch h
            (processMergeMessageCallback opts) (signingCallback opts))\<rparr>)
     repo ver opts"
proof
  show "finish f D repo ver
     (opts\<lparr>beforeMergeCallback := None, postDevelopMergeCallback := None,
           postMasterMergeCallback := None, postCheckoutHook := None\<rparr>) =
   finish f D repo ver
     (opts\<lparr>beforeMergeCallback := Some noop, postDevelopMergeCallback := Some noop,
           postMasterMergeCallback := Some noop, postCheckoutHook := Some noop\<rparr>)"
    by (rule ext)
       (simp add: finish_stages andThen_def afterResolution_defaults
          split: option.splits prod.splits sum.splits)
  show "finish f D repo ver opts =
   finish f
     (D\<lparr>Repo_merge := (\<lambda>toBranch fromBranch h given1 given2.
          Repo_merge D toBranch fromBranch h
            (processMergeMessageCallback opts) (signingCallback opts))\<rparr>)
     repo ver opts"
    by (rule ext)
       (simp add: finish_stages andThen_def afterResolution_merge_given
          resolution_merge_given split: option.splits prod.splits sum.splits)
qed

theorem hook_defaults_witness:
  "finish Release engine (Some ()) (Some ''1.0'')
     (passThrough\<lparr>beforeMergeCallback := None, postDevelopMergeCallback := None,
           postMasterMergeCallback := None, postCheckoutHook := None\<rparr>) midRelease =
   finish Release engine (Some ()) (Some ''1.0'')
     (passThrough\<lparr>beforeMergeCallback := Some noop, postDevelopMergeCallback := Some noop,
           postMasterMergeCallback := Some noop, postCheckoutHook := Some noop\<rparr>) midRelease"
  using hook_defaults [of Release engine "Some ()" "Some ''1.0''" passThrough]
  by simp

text \<open>
  C8 as stated fails for the two hooks without a default. On the modelled repository a
  merge that is given no \<open>processMergeMessageCallback\<close> keeps the generated message,
  and one that is given a no-op gets the no-op's \<open>undefined\<close> for a message: the call
  with no hooks and the call with six no-ops leave different merge commits.
\<close>

theorem hook_defaults_counterexample:
  "result (finishRelease engine (Some ()) (Some ''1.0'') noOptions releaseOnMaster)
     = Inr (JOid ''d1+r1'') \<and>
   result (finishRelease engine (Some ()) (Some ''1.0'') allNoops releaseOnMaster)
     = Inr (JOid ''d1+r1'') \<and>
   map_option cmessage
     (commits (final (finishRelease engine (Some ()) (Some ''1.0'') noOptions releaseOnMaster))
        ''d1+r1'') = Some (JStr ''Merge branch release/1.0'') \<and>
   map_option cmessage
     (commits (final (finishRelease engine (Some ()) (Some ''1.0'') allNoops releaseOnMaster))
        ''d1+r1'') = Some JUndefined"
  by (simp add: finishRelease_def releaseOnMaster_def allNoops_def promise_defs engine_defs)


section \<open>Deleting the branch\<close>

text \<open>
  C5, on the modelled repository. A finish call that succeeds without \<open>keepBranch\<close>
  ends with the safe deletion of the workflow branch, given the master branch to fall
  back on and the \<open>postCheckoutHook\<close> of the options, in the state \<open>s\<close> that the tag
  creation left. If HEAD points at the workflow branch in \<open>s\<close>, HEAD is moved to master,
  \<open>postCheckoutHook\<close> is called on the old and the new target of HEAD, and the branch is
  deleted in the state the hook left; if HEAD points elsewhere the branch is only deleted.
  Afterwards the branch no longer resolves and HEAD does not point at it. The safe
  deletion by itself, for any hook: when HEAD points at the branch it checks the fallback
  out, calls the hook, and deletes in the state the hook left (not at all if the hook
  throws). A finish call that succeeds with \<open>keepBranch\<close> ends in the state the tag
  creation left and, with hooks that delete no branch themselves, leaves the workflow
  branch resolving.
\<close>

theorem cleanup_deletes_safely:
  "(result (finish f engine repo ver opts r) = Inr x \<and> \<not> keepBranch opts
      \<longrightarrow>
      (\<exists>v cfg target tagged sT s.
         ver = Some v \<and>
         hd (log (finish f engine repo ver opts r)) = (GetConfig, GotConfig cfg) \<and>
         last (log (finish f engine repo ver opts r)) = (SafelyDeleteBranch (basePrefix f cfg @
             v) (gitflow_branch_master cfg), Done) \<and>
         replays engine () opts (log (finish f engine repo ver opts r)) r (final (finish f engine
             repo ver opts r)) \<and>
         createTag target (gitflow_prefix_versiontag cfg @ v) (message opts) () sT = (Inr tagged,
             s) \<and>
         safelyDeleteBranch () (basePrefix f cfg @ v) (gitflow_branch_master cfg) (orNoop
             (postCheckoutHook opts)) s
           = (Inr (), (final (finish f engine repo ver opts r))) \<and>
         (if HEAD s = (basePrefix f cfg @ v) then
            (\<exists>old new u s1.
               branches s (basePrefix f cfg @ v) = Some old \<and> branches s
                   (gitflow_branch_master cfg) = Some new \<and>
               orNoop (postCheckoutHook opts) [JStr old, JStr new] (s\<lparr>HEAD :=
                   (gitflow_branch_master cfg)\<rparr>)
                 = (Inr u, s1) \<and>
               deleteBranch () (basePrefix f cfg @ v) s1 = (Inr (), (final (finish f engine repo
                   ver opts r))))
          else deleteBranch () (basePrefix f cfg @ v) s = (Inr (), (final (finish f engine repo
              ver opts r)))) \<and>
         branches (final (finish f engine repo ver opts r)) (basePrefix f cfg @ v) = None \<and>
         HEAD (final (finish f engine repo ver opts r)) \<noteq> (basePrefix f cfg @ v))) \<and>
   (HEAD r0 = b \<and> branches r0 b = Some old \<and> branches r0 m = Some new \<longrightarrow>
      safelyDeleteBranch h b m hook r0 =
        thenOp (hook [JStr old, JStr new]) (\<lambda>_. deleteBranch h b) (r0\<lparr>HEAD :=
            m\<rparr>)) \<and>
   (HEAD r0 \<noteq> b \<and> branches r0 (HEAD r0) \<noteq> None \<longrightarrow>
      safelyDeleteBranch h b m hook r0 = deleteBranch h b r0) \<and>
   (result (finish f engine repo ver opts r) = Inr x \<and> keepBranch opts \<and>
    hooksDeleteNoBranch opts \<longrightarrow>
      (\<exists>v cfg target tagged sT.
         ver = Some v \<and>
         hd (log (finish f engine repo ver opts r)) = (GetConfig, GotConfig cfg) \<and>
         replays engine () opts (log (finish f engine repo ver opts r)) r (final (finish f engine
             repo ver opts r)) \<and>
         createTag target (gitflow_prefix_versiontag cfg @ v) (message opts) () sT = (Inr tagged,
             (final (finish f engine repo ver opts r))) \<and>
         branches (final (finish f engine repo ver opts r)) (basePrefix f cfg @ v) \<noteq>
             None))"
proof (intro conjI impI)
  assume a: "result (finish f engine repo ver opts r) = Inr x \<and> \<not> keepBranch opts"
  obtain res r' t where run: "finish f engine repo ver opts r = (res, r', t)"
    by (cases "finish f engine repo ver opts r") auto
  with a have run: "finish f engine repo ver opts r = (Inr x, r', t)"
    by (simp add: result_def)
  from finish_succeeds_decided[OF run] obtain rp v cfg db wb mb dc wc mc rg t2 where
    rp: "repo = Some rp" and ver: "ver = Some v" and
    t: "t = resolutionLog f cfg v db wb mb dc wc mc @ t2" and
    rest: "afterResolution f engine rp opts cfg v [db, wb, mb] [dc, wc, mc] rg = (Inr x, r', t2)"
    by blast
  have rep: "replays engine () opts t r r'"
    using finish_replays[OF run[unfolded rp]] by simp
  from afterResolution_ok[OF rest] obtain z sD sM tD tM tC where
    mas: "masterStep engine rp opts (gitflow_branch_master cfg) (basePrefix f cfg @ v) mb wb mc
        wc (gitflow_prefix_versiontag cfg @ v) sD = (Inr z, sM, tM)" and
    cln: "cleanupStep engine rp opts (basePrefix f cfg @ v) (gitflow_branch_master cfg) sM = (Inr
        (), r', tC)" and
    t2: "t2 = tD @ tM @ tC"
    by blast
  from engine_tagged[OF mas] obtain target sT where
    tag: "createTag target (gitflow_prefix_versiontag cfg @ v) (message opts) () sT = (Inr z, sM)"
    by blast
  from cleanupStep_ok[OF cln] a have
    del: "safelyDeleteBranch () (basePrefix f cfg @ v) (gitflow_branch_master cfg) (orNoop
        (postCheckoutHook opts)) sM = (Inr (), r')" and
    tC: "tC = [(SafelyDeleteBranch (basePrefix f cfg @ v) (gitflow_branch_master cfg), Done)]"
    by (simp_all add: engine_def)
  have ends: "hd t = (GetConfig, GotConfig cfg)"
    "last t = (SafelyDeleteBranch (basePrefix f cfg @ v) (gitflow_branch_master cfg), Done)"
    unfolding t t2 tC by (simp_all add: resolutionLog_def)
  note safe = safelyDeleteBranch_cases[OF del] and gone = safelyDeleteBranch_ok[OF del]
  have body: "ver = Some v \<and>
         hd t = (GetConfig, GotConfig cfg) \<and>
         last t = (SafelyDeleteBranch (basePrefix f cfg @ v) (gitflow_branch_master cfg), Done)
             \<and>
         replays engine () opts t r r' \<and>
         createTag target (gitflow_prefix_versiontag cfg @ v) (message opts) () sT = (Inr z, sM)
             \<and>
         safelyDeleteBranch () (basePrefix f cfg @ v) (gitflow_branch_master cfg) (orNoop
             (postCheckoutHook opts)) sM
           = (Inr (), r') \<and>
         (if HEAD sM = (basePrefix f cfg @ v) then
            (\<exists>old new u s1.
               branches sM (basePrefix f cfg @ v) = Some old \<and> branches sM
                   (gitflow_branch_master cfg) = Some new \<and>
               orNoop (postCheckoutHook opts) [JStr old, JStr new] (sM\<lparr>HEAD :=
                   (gitflow_branch_master cfg)\<rparr>)
                 = (Inr u, s1) \<and>
               deleteBranch () (basePrefix f cfg @ v) s1 = (Inr (), r'))
          else deleteBranch () (basePrefix f cfg @ v) sM = (Inr (), r')) \<and>
         branches r' (basePrefix f cfg @ v) = None \<and>
         HEAD r' \<noteq> (basePrefix f cfg @ v)"
    by (insert ver ends rep tag del safe gone, elim conjE, (intro conjI; assumption))
  have inner: "\<exists>v cfg target tagged sT s.
         ver = Some v \<and>
         hd t = (GetConfig, GotConfig cfg) \<and>
         last t = (SafelyDeleteBranch (basePrefix f cfg @ v) (gitflow_branch_master cfg), Done)
             \<and>
         replays engine () opts t r r' \<and>
         createTag target (gitflow_prefix_versiontag cfg @ v) (message opts) () sT = (Inr tagged,
             s) \<and>
         safelyDeleteBranch () (basePrefix f cfg @ v) (gitflow_branch_master cfg) (orNoop
             (postCheckoutHook opts)) s
           = (Inr (), r') \<and>
         (if HEAD s = (basePrefix f cfg @ v) then
            (\<exists>old new u s1.
               branches s (basePrefix f cfg @ v) = Some old \<and> branches s
                   (gitflow_branch_master cfg) = Some new \<and>
               orNoop (postCheckoutHook opts) [JStr old, JStr new] (s\<lparr>HEAD :=
                   (gitflow_branch_master cfg)\<rparr>)
                 = (Inr u, s1) \<and>
               deleteBranch () (basePrefix f cfg @ v) s1 = (Inr (), r'))
          else deleteBranch () (basePrefix f cfg @ v) s = (Inr (), r')) \<and>
         branches r' (basePrefix f cfg @ v) = None \<and>
         HEAD r' \<noteq> (basePrefix f cfg @ v)"
    by ((rule exI)+, rule body)
  have eqs: "log (finish f engine repo ver opts r) = t"
    "final (finish f engine repo ver opts r) = r'"
    using run by (simp_all add: log_def final_def)
  show "\<exists>v cfg target tagged sT s.
         ver = Some v \<and>
         hd (log (finish f engine repo ver opts r)) = (GetConfig, GotConfig cfg) \<and>
         last (log (finish f engine repo ver opts r)) = (SafelyDeleteBranch (basePrefix f cfg @
             v) (gitflow_branch_master cfg), Done) \<and>
         replays engine () opts (log (finish f engine repo ver opts r)) r (final (finish f engine
             repo ver opts r)) \<and>
         createTag target (gitflow_prefix_versiontag cfg @ v) (message opts) () sT = (Inr tagged,
             s) \<and>
         safelyDeleteBranch () (basePrefix f cfg @ v) (gitflow_branch_master cfg) (orNoop
             (postCheckoutHook opts)) s
           = (Inr (), (final (finish f engine repo ver opts r))) \<and>
         (if HEAD s = (basePrefix f cfg @ v) then
            (\<exists>old new u s1.
               branches s (basePrefix f cfg @ v) = Some old \<and> branches s
                   (gitflow_branch_master cfg) = Some new \<and>
               orNoop (postCheckoutHook opts) [JStr old, JStr new] (s\<lparr>HEAD :=
                   (gitflow_branch_master cfg)\<rparr>)
                 = (Inr u, s1) \<and>
               deleteBranch () (basePrefix f cfg @ v) s1 = (Inr (), (final (finish f engine repo
                   ver opts r))))
          else deleteBranch () (basePrefix f cfg @ v) s = (Inr (), (final (finish f engine repo
              ver opts r)))) \<and>
         branches (final (finish f engine repo ver opts r)) (basePrefix f cfg @ v) = None \<and>
         HEAD (final (finish f engine repo ver opts r)) \<noteq> (basePrefix f cfg @ v)"
    unfolding eqs by (rule inner)
next
  assume "HEAD r0 = b \<and> branches r0 b = Some old \<and> branches r0 m = Some new"
  then show "safelyDeleteBranch h b m hook r0 =
        thenOp (hook [JStr old, JStr new]) (\<lambda>_. deleteBranch h b) (r0\<lparr>HEAD :=
            m\<rparr>)"
    by (simp add: safelyDeleteBranch_on_head)
next
  assume "HEAD r0 \<noteq> b \<and> branches r0 (HEAD r0) \<noteq> None"
  then show "safelyDeleteBranch h b m hook r0 = deleteBranch h b r0"
    by (simp add: safelyDeleteBranch_off_head)
next
  assume a: "result (finish f engine repo ver opts r) = Inr x \<and> keepBranch opts \<and>
    hooksDeleteNoBranch opts"
  obtain res r' t where run: "finish f engine repo ver opts r = (res, r', t)"
    by (cases "finish f engine repo ver opts r") auto
  with a have run: "finish f engine repo ver opts r = (Inr x, r', t)"
    by (simp add: result_def)
  from finish_succeeds_decided[OF run] obtain rp v cfg db wb mb dc wc mc rg t2 where
    rp: "repo = Some rp" and ver: "ver = Some v" and
    dec: "decided f engine rp v r cfg db wb mb dc wc mc rg" and
    t: "t = resolutionLog f cfg v db wb mb dc wc mc @ t2" and
    rest: "afterResolution f engine rp opts cfg v [db, wb, mb] [dc, wc, mc] rg = (Inr x, r', t2)"
    by blast
  have rep: "replays engine () opts t r r'"
    using finish_replays[OF run[unfolded rp]] by simp
  from afterResolution_ok[OF rest] obtain z sD sM tD tM tC where
    mas: "masterStep engine rp opts (gitflow_branch_master cfg) (basePrefix f cfg @ v) mb wb mc
        wc (gitflow_prefix_versiontag cfg @ v) sD = (Inr z, sM, tM)" and
    cln: "cleanupStep engine rp opts (basePrefix f cfg @ v) (gitflow_branch_master cfg) sM = (Inr
        (), r', tC)"
    by blast
  from cleanupStep_ok[OF cln] a have "r' = sM" by simp
  with engine_tagged[OF mas] obtain target sT where
    tag: "createTag target (gitflow_prefix_versiontag cfg @ v) (message opts) () sT = (Inr z, r')"
    by blast
  from dec have "resolution f engine rp v r =
      (Inr (cfg, [db, wb, mb], [dc, wc, mc]), rg, resolutionLog f cfg v db wb mb dc wc mc)"
    by (simp add: decided_resolution)
  from engine_resolution[OF this] have "branches rg (basePrefix f cfg @ v) \<noteq> None" by simp
  with afterResolution_keeps[of opts "(basePrefix f cfg @ v)" f rp cfg v "[db, wb, mb]" "[dc, wc,
      mc]"]
    a rest
  have kept: "branches r' (basePrefix f cfg @ v) \<noteq> None"
    unfolding keepsBranch_def by blast
  have ends: "hd t = (GetConfig, GotConfig cfg)"
    unfolding t by (simp add: resolutionLog_def)
  have body: "ver = Some v \<and>
         hd t = (GetConfig, GotConfig cfg) \<and>
         replays engine () opts t r r' \<and>
         createTag target (gitflow_prefix_versiontag cfg @ v) (message opts) () sT = (Inr z, r')
             \<and>
         branches r' (basePrefix f cfg @ v) \<noteq> None"
    by (insert ver ends rep tag kept, (intro conjI; assumption))
  have inner: "\<exists>v cfg target tagged sT.
         ver = Some v \<and>
         hd t = (GetConfig, GotConfig cfg) \<and>
         replays engine () opts t r r' \<and>
         createTag target (gitflow_prefix_versiontag cfg @ v) (message opts) () sT = (Inr tagged,
             r') \<and>
         branches r' (basePrefix f cfg @ v) \<noteq> None"
    by ((rule exI)+, rule body)
  have eqs: "log (finish f engine repo ver opts r) = t"
    "final (finish f engine repo ver opts r) = r'"
    using run by (simp_all add: log_def final_def)
  show "\<exists>v cfg target tagged sT.
         ver = Some v \<and>
         hd (log (finish f engine repo ver opts r)) = (GetConfig, GotConfig cfg) \<and>
         replays engine () opts (log (finish f engine repo ver opts r)) r (final (finish f engine
             repo ver opts r)) \<and>
         createTag target (gitflow_prefix_versiontag cfg @ v) (message opts) () sT = (Inr tagged,
             (final (finish f engine repo ver opts r))) \<and>
         branches (final (finish f engine repo ver opts r)) (basePrefix f cfg @ v) \<noteq> None"
    unfolding eqs by (rule inner)
qed

theorem cleanup_deletes_safely_witness:
  "result (finish Hotfix engine (Some ()) (Some ''1.0'') noOptions midHotfix)
     = Inr (JOid ''d1+h1'') \<and>
   \<not> keepBranch (noOptions :: repository options) \<and>
   branches (final (finish Hotfix engine (Some ()) (Some ''1.0'') noOptions midHotfix))
     ''hotfix/1.0'' = None \<and>
   HEAD (final (finish Hotfix engine (Some ()) (Some ''1.0'') noOptions midHotfix))
     = ''master'' \<and>
   result (finish Release engine (Some ()) (Some ''1.0'') passThrough midRelease)
     = Inr (JOid ''d1+r1'') \<and>
   \<not> keepBranch (passThrough :: repository options) \<and>
   branches (final (finish Release engine (Some ()) (Some ''1.0'') passThrough midRelease))
     ''release/1.0'' = None \<and>
   result (finish Release engine (Some ()) (Some ''1.0'') keeping midRelease)
     = Inr (JOid ''d1+r1'') \<and>
   keepBranch (keeping :: repository options) \<and>
   branches (final (finish Release engine (Some ()) (Some ''1.0'') keeping midRelease))
     ''release/1.0'' = Some ''r1'' \<and>
   result (finish Hotfix engine (Some ()) (Some ''1.0'') (noOptions\<lparr>keepBranch := True\<rparr>)
             midHotfix) = Inr (JOid ''d1+h1'') \<and>
   branches (final (finish Hotfix engine (Some ()) (Some ''1.0'')
                      (noOptions\<lparr>keepBranch := True\<rparr>) midHotfix))
     ''hotfix/1.0'' = Some ''h1'' \<and>
   safelyDeleteBranch () ''release/1.0'' ''master'' noop midRelease =
     thenOp (noop [JStr ''r1'', JStr ''m1'']) (\<lambda>_. deleteBranch () ''release/1.0'')
       (midRelease\<lparr>HEAD := ''master''\<rparr>) \<and>
   safelyDeleteBranch () ''release/1.0'' ''master'' noop (midRelease\<lparr>HEAD := ''develop''\<rparr>) =
     deleteBranch () ''release/1.0'' (midRelease\<lparr>HEAD := ''develop''\<rparr>)"
proof -
  note hotfix = cleanup_deletes_safely
    [where f = Hotfix and repo = "Some ()" and ver = "Some ''1.0''" and opts = noOptions
       and r = midHotfix and x = "JOid ''d1+h1''" and ?r0.0 = midRelease
       and b = "''release/1.0''" and old = "''r1''" and m = "''master''" and new = "''m1''"
       and h = "()" and hook = noop]
  note release = cleanup_deletes_safely
    [where f = Release and repo = "Some ()" and ver = "Some ''1.0''" and opts = passThrough
       and r = midRelease and x = "JOid ''d1+r1''"
       and ?r0.0 = "midRelease\<lparr>HEAD := ''develop''\<rparr>"
       and b = "''release/1.0''" and old = "''r1''" and m = "''master''" and new = "''m1''"
       and h = "()" and hook = noop]
  note kept = cleanup_deletes_safely
    [where f = Release and repo = "Some ()" and ver = "Some ''1.0''" and opts = keeping
       and r = midRelease and x = "JOid ''d1+r1''"]
  note keptHotfix = cleanup_deletes_safely
    [where f = Hotfix and repo = "Some ()" and ver = "Some ''1.0''"
       and opts = "noOptions\<lparr>keepBranch := True\<rparr>"
       and r = midHotfix and x = "JOid ''d1+h1''"]
  have on_head: "HEAD midRelease = ''release/1.0'' \<and>
      branches midRelease ''release/1.0'' = Some ''r1'' \<and>
      branches midRelease ''master'' = Some ''m1''"
    by (simp add: midRelease_def)
  have off_head: "HEAD (midRelease\<lparr>HEAD := ''develop''\<rparr>) \<noteq> ''release/1.0'' \<and>
      branches (midRelease\<lparr>HEAD := ''develop''\<rparr>) (HEAD (midRelease\<lparr>HEAD := ''develop''\<rparr>)) \<noteq> None"
    by (simp add: midRelease_def)
  from hotfix [THEN conjunct2, THEN conjunct1, THEN mp, OF on_head]
    release [THEN conjunct2, THEN conjunct2, THEN conjunct1, THEN mp, OF off_head]
    kept [THEN conjunct2, THEN conjunct2, THEN conjunct2]
    keptHotfix [THEN conjunct2, THEN conjunct2, THEN conjunct2]
    hotfix [THEN conjunct1] release [THEN conjunct1]
  show ?thesis
    by (simp add: midRelease_result midHotfix_result midHotfix_final keeping_result
          keeping_final passThrough_final keepingHotfix_result keepingHotfix_final
          passThrough_flags noOptions_flags keeping_flags keeping_hooks keepingHotfix_hooks)
qed


end
